theory Spec2Isabelle
  imports Main "HOL-Library.Word" "HOL-Library.Sublist"
begin

section \<open>Go values used by the program\<close>

text \<open>
  A Go string is a sequence of bytes: \<^typ>\<open>string\<close>. A \<open>float32\<close> and a \<open>float64\<close> are kept
  as their IEEE 754 bit patterns. A \<open>float32\<close> has its sign in bit 31, its exponent in
  bits 23 to 30 and its fraction in bits 0 to 22; an exponent of 255 marks an infinity
  (fraction 0) or a NaN (any other fraction).
\<close>

type_synonym float32 = "32 word"
type_synonym float64 = "64 word"

definition exponent32 :: "float32 \<Rightarrow> nat" where
  "exponent32 f = unat (take_bit 8 (drop_bit 23 f))"

definition fraction32 :: "float32 \<Rightarrow> nat" where
  "fraction32 f = unat (take_bit 23 f)"

definition isNaN32 :: "float32 \<Rightarrow> bool" where
  "isNaN32 f = (exponent32 f = 255 \<and> fraction32 f \<noteq> 0)"

definition isInf32 :: "float32 \<Rightarrow> bool" where
  "isInf32 f = (exponent32 f = 255 \<and> fraction32 f = 0)"

text \<open>
  A slice is \<open>nil\<close> or holds elements. \<open>len\<close> and \<open>range\<close> treat the \<open>nil\<close> slice as an
  empty one; \<open>json.Marshal\<close> does not (\<open>null\<close> against \<open>[]\<close>). A slice that the program
  only measures and ranges over is a plain list below.
\<close>

datatype 'a slice = NilSlice | Slice "'a list"

fun elems :: "'a slice \<Rightarrow> 'a list" where
  "elems NilSlice = []"
| "elems (Slice xs) = xs"

definition len :: "'a slice \<Rightarrow> nat" where
  "len s = length (elems s)"

text \<open>\<open>strings.Join(elems, sep)\<close>.\<close>

fun strings_Join :: "string list \<Rightarrow> string \<Rightarrow> string" where
  "strings_Join [] sep = []"
| "strings_Join [x] sep = x"
| "strings_Join (x # y # zs) sep = x @ sep @ strings_Join (y # zs) sep"

section \<open>The nearVector argument builder (nearvectorbuilder.go)\<close>

text \<open>
  The struct \<open>NearVectorArgumentBuilder\<close>. The Go map \<open>vectorsPerTarget\<close> is the list of its
  entries, in the order in which \<open>range\<close> visits them (an order the Go runtime chooses);
  a lookup \<open>m[k]\<close> is \<^const>\<open>map_of\<close>, and the \<open>nil\<close> map is the empty list. The order is
  part of the state here, so a statement proved for every state holds for every order in
  which the runtime may visit the entries. The type
  \<open>MultiTargetArgumentBuilder\<close> of the field \<open>targets\<close> belongs to a file of the client
  library that is not part of the sources at hand: it is the type parameter \<open>'mt\<close>, and the
  pointer is an option.
\<close>

record 'mt NearVectorArgumentBuilder =
  vector :: "float32 list"
  vectorsPerTarget :: "(string \<times> float32 slice slice) list"
  withCertainty :: bool
  certainty :: float32
  withDistance :: bool
  distance :: float32
  targetVectors :: "string list"
  targets :: "'mt option"

text \<open>The zero value of the struct, which \<open>NearVectorArgBuilder()\<close> hands out.\<close>

definition new_builder :: "'mt NearVectorArgumentBuilder" where
  "new_builder = \<lparr>vector = [], vectorsPerTarget = [], withCertainty = False, certainty = 0,
     withDistance = False, distance = 0, targetVectors = [], targets = None\<rparr>"

definition WithVector ::
  "float32 list \<Rightarrow> 'mt NearVectorArgumentBuilder \<Rightarrow> 'mt NearVectorArgumentBuilder" where
  "WithVector v b = b\<lparr>vector := v\<rparr>"

definition WithVectorsPerTarget ::
  "(string \<times> float32 slice slice) list \<Rightarrow> 'mt NearVectorArgumentBuilder
     \<Rightarrow> 'mt NearVectorArgumentBuilder" where
  "WithVectorsPerTarget vectorPerTarget b =
     (if length vectorPerTarget > 0 then b\<lparr>vectorsPerTarget := vectorPerTarget\<rparr> else b)"

text \<open>
  \<open>WithVectorPerTarget\<close> copies the entries into a fresh map, each vector wrapped into a
  one-element slice.
\<close>

definition WithVectorPerTarget ::
  "(string \<times> float32 slice) list \<Rightarrow> 'mt NearVectorArgumentBuilder
     \<Rightarrow> 'mt NearVectorArgumentBuilder" where
  "WithVectorPerTarget vectorPerTarget b =
     (if length vectorPerTarget > 0
      then b\<lparr>vectorsPerTarget := map (\<lambda>(k, v). (k, Slice [v])) vectorPerTarget\<rparr>
      else b)"

definition WithCertainty ::
  "float32 \<Rightarrow> 'mt NearVectorArgumentBuilder \<Rightarrow> 'mt NearVectorArgumentBuilder" where
  "WithCertainty c b = b\<lparr>withCertainty := True, certainty := c\<rparr>"

definition WithDistance ::
  "float32 \<Rightarrow> 'mt NearVectorArgumentBuilder \<Rightarrow> 'mt NearVectorArgumentBuilder" where
  "WithDistance d b = b\<lparr>withDistance := True, distance := d\<rparr>"

definition WithTargetVectors ::
  "string list \<Rightarrow> 'mt NearVectorArgumentBuilder \<Rightarrow> 'mt NearVectorArgumentBuilder" where
  "WithTargetVectors tv b = (if length tv > 0 then b\<lparr>targetVectors := tv\<rparr> else b)"

definition WithTargets ::
  "'mt option \<Rightarrow> 'mt NearVectorArgumentBuilder \<Rightarrow> 'mt NearVectorArgumentBuilder" where
  "WithTargets t b = b\<lparr>targets := t\<rparr>"

subsection \<open>prepareTargetVectors\<close>

text \<open>The inner loop \<open>for range vectors { out = append(out, target) }\<close>.\<close>

fun append_per_vector :: "'v list \<Rightarrow> string \<Rightarrow> string list \<Rightarrow> string list" where
  "append_per_vector [] target out = out"
| "append_per_vector (v # vs) target out = append_per_vector vs target (out @ [target])"

text \<open>
  The outer loop over the argument \<open>targets\<close> (the declared target names; written
  \<open>declared\<close> where the name of the record field \<open>targets\<close> is in the way), with
  the result slice \<open>out\<close> as accumulator.
\<close>

fun prepareTargetVectors_loop ::
  "(string \<times> 'v slice) list \<Rightarrow> string list \<Rightarrow> string list \<Rightarrow> string list" where
  "prepareTargetVectors_loop m [] out = out"
| "prepareTargetVectors_loop m (target # rest) out =
     (case map_of m target of
        Some vectors \<Rightarrow>
          prepareTargetVectors_loop m rest (append_per_vector (elems vectors) target out)
      | None \<Rightarrow> prepareTargetVectors_loop m rest (out @ [target]))"

definition prepareTargetVectors ::
  "'mt NearVectorArgumentBuilder \<Rightarrow> string list \<Rightarrow> string list" where
  "prepareTargetVectors b declared = prepareTargetVectors_loop (vectorsPerTarget b) declared []"

text \<open>
  The reconciliation in the words of the specification: a declared target with associated
  vectors is written once per vector, a declared target without an entry once, in the
  order of the declared targets.
\<close>

definition reconciled_targets ::
  "(string \<times> 'v slice) list \<Rightarrow> string list \<Rightarrow> string list" where
  "reconciled_targets m declared =
     concat (map (\<lambda>t. case map_of m t of
                         Some vectors \<Rightarrow> replicate (len vectors) t
                       | None \<Rightarrow> [t]) declared)"

subsection \<open>Library functions that build calls\<close>

text \<open>
  \<open>build\<close> prints floats with \<open>fmt.Sprintf("%v", f)\<close>, renders vectors and target names
  with \<open>encoding/json\<close> and calls \<open>build\<close> of the \<open>MultiTargetArgumentBuilder\<close>. The decimal
  rendering of a finite float, the quoting of a JSON string and the multi-target builder
  are functions of Go's library and of the client library; they are parameters of the
  model, collected in one record, and every theorem holds for all of them.
\<close>

record 'mt golib =
  sprint_float32 :: "float32 \<Rightarrow> string"
  json_float32 :: "float32 \<Rightarrow> string"
  json_string :: "string \<Rightarrow> string"
  targets_build :: "'mt \<Rightarrow> string"

text \<open>
  \<open>json.Marshal\<close> fails on a float that is a NaN or an infinity, with an
  \<open>UnsupportedValueError\<close> that carries the float printed by
  \<open>strconv.FormatFloat(f, 'g', -1, 32)\<close>: \<open>NaN\<close>, \<open>+Inf\<close> or \<open>-Inf\<close>. Its \<open>Error()\<close> is
  \<open>json: unsupported value: \<close> followed by that text.
\<close>

datatype json_error = UnsupportedValueError string

fun json_Error :: "json_error \<Rightarrow> string" where
  "json_Error (UnsupportedValueError str) = ''json: unsupported value: '' @ str"

definition formatSpecial32 :: "float32 \<Rightarrow> string" where
  "formatSpecial32 f = (if isNaN32 f then ''NaN'' else if bit f 31 then ''-Inf'' else ''+Inf'')"

definition marshal_float32 :: "'mt golib \<Rightarrow> float32 \<Rightarrow> json_error + string" where
  "marshal_float32 L f =
     (if isInf32 f \<or> isNaN32 f then Inl (UnsupportedValueError (formatSpecial32 f))
      else Inr (json_float32 L f))"

text \<open>The elements of an array are encoded from left to right; the first error ends it.\<close>

fun marshal_elems :: "('a \<Rightarrow> json_error + string) \<Rightarrow> 'a list \<Rightarrow> json_error + string list" where
  "marshal_elems enc [] = Inr []"
| "marshal_elems enc (x # xs) =
     (case enc x of
        Inl err \<Rightarrow> Inl err
      | Inr s \<Rightarrow> (case marshal_elems enc xs of Inl err \<Rightarrow> Inl err | Inr ss \<Rightarrow> Inr (s # ss)))"

definition marshal_array :: "('a \<Rightarrow> json_error + string) \<Rightarrow> 'a list \<Rightarrow> json_error + string" where
  "marshal_array enc xs =
     (case marshal_elems enc xs of
        Inl err \<Rightarrow> Inl err
      | Inr ss \<Rightarrow> Inr (''['' @ strings_Join ss '','' @ '']''))"

fun marshal_slice :: "('a \<Rightarrow> json_error + string) \<Rightarrow> 'a slice \<Rightarrow> json_error + string" where
  "marshal_slice enc NilSlice = Inr ''null''"
| "marshal_slice enc (Slice xs) = marshal_array enc xs"

text \<open>\<open>json.Marshal\<close> at the types \<open>[]float32\<close> (not empty), \<open>[][]float32\<close> and \<open>[]string\<close>.\<close>

definition marshal_vector :: "'mt golib \<Rightarrow> float32 list \<Rightarrow> json_error + string" where
  "marshal_vector L v = marshal_array (marshal_float32 L) v"

definition marshal_vectors :: "'mt golib \<Rightarrow> float32 slice slice \<Rightarrow> json_error + string" where
  "marshal_vectors L v = marshal_slice (marshal_slice (marshal_float32 L)) v"

definition marshal_strings :: "'mt golib \<Rightarrow> string list \<Rightarrow> json_error + string" where
  "marshal_strings L xs = marshal_array (\<lambda>s. Inr (json_string L s)) xs"

subsection \<open>build\<close>

text \<open>
  A panic is the value of the model, with the value \<open>panic\<close> was called with: a string
  (line 92) or an error made by \<open>fmt.Errorf\<close>, given by its message (line 101).
\<close>

datatype panic = PanicString string | PanicError string

text \<open>
  The loop of lines 89 to 95 over the entries of \<open>vectorsPerTarget\<close>, with the slice
  \<open>vectorPerTarget\<close> as accumulator.
\<close>

fun vectorPerTarget_loop ::
  "'mt golib \<Rightarrow> (string \<times> float32 slice slice) list \<Rightarrow> string list \<Rightarrow> panic + string list" where
  "vectorPerTarget_loop L [] vectorPerTarget = Inr vectorPerTarget"
| "vectorPerTarget_loop L ((k, v) # rest) vectorPerTarget =
     (case marshal_vectors L v of
        Inl err \<Rightarrow> Inl (PanicString (''could not marshal vector: '' @ json_Error err))
      | Inr vBytes \<Rightarrow> vectorPerTarget_loop L rest (vectorPerTarget @ [k @ '': '' @ vBytes]))"

text \<open>
  \<open>build_clauses\<close> is the body of \<open>build\<close> up to its last line: the slice \<open>clause\<close> as
  \<open>return\<close> finds it, or the panic. \<open>build\<close> joins the clauses.
\<close>

definition build_clauses ::
  "'mt golib \<Rightarrow> 'mt NearVectorArgumentBuilder \<Rightarrow> panic + string list" where
  "build_clauses L b =
     (let clause = [];
          clause = (if withCertainty b
                    then clause @ [''certainty: '' @ sprint_float32 L (certainty b)]
                    else clause);
          clause = (if withDistance b
                    then clause @ [''distance: '' @ sprint_float32 L (distance b)]
                    else clause)
      in case (if length (vectorsPerTarget b) > 0
               then (case vectorPerTarget_loop L (vectorsPerTarget b) [] of
                       Inl p \<Rightarrow> Inl p
                     | Inr vectorPerTarget \<Rightarrow>
                         Inr (clause @
                           [''vectorPerTarget: {'' @ strings_Join vectorPerTarget '','' @ ''}'']))
               else Inr clause) of
           Inl p \<Rightarrow> Inl p
         | Inr clause \<Rightarrow>
            (case (if length (vector b) \<noteq> 0 \<and> length (vectorsPerTarget b) = 0
                   then (case marshal_vector L (vector b) of
                           Inl err \<Rightarrow>
                             Inl (PanicError
                               (''failed to unmarshal nearVector search vector: '' @ json_Error err))
                         | Inr vectorB \<Rightarrow> Inr (clause @ [''vector: '' @ vectorB]))
                   else Inr clause) of
               Inl p \<Rightarrow> Inl p
             | Inr clause \<Rightarrow>
                (let clause = (case targets b of
                                 Some t \<Rightarrow> clause @ [''targets: {'' @ targets_build L t @ ''}'']
                               | None \<Rightarrow> clause);
                     targetVectors = prepareTargetVectors b (targetVectors b);
                     clause = (if length targetVectors > 0
                               then clause @ [''targetVectors: '' @
                                 (case marshal_strings L targetVectors of
                                    Inl err \<Rightarrow> [] | Inr bytes \<Rightarrow> bytes)]
                               else clause)
                 in Inr clause)))"

definition build :: "'mt golib \<Rightarrow> 'mt NearVectorArgumentBuilder \<Rightarrow> panic + string" where
  "build L b =
     (case build_clauses L b of
        Inl p \<Rightarrow> Inl p
      | Inr clause \<Rightarrow> Inr (''nearVector:{'' @ strings_Join clause '' '' @ ''}''))"

section \<open>The retrieval programs (main.go and the Qdrant variant)\<close>

text \<open>
  Two programs of the repository have the same shape: \<open>main.go\<close> searches Weaviate through
  the builder above, the second file searches Qdrant. Both define \<open>convertToFloat32\<close> with
  the same text and a \<open>processQuery\<close> each; the second one is \<open>processQuery_qdrant\<close> here.
\<close>

subsection \<open>convertToFloat32\<close>

text \<open>
  The conversion \<open>float32(v)\<close> of the language is the parameter \<open>narrow\<close>. The loop writes
  \<open>f32[i]\<close> for each index \<open>i\<close> of \<open>f64\<close>, into a slice made with the length of \<open>f64\<close>
  and filled with zeros.
\<close>

fun convertToFloat32_loop ::
  "(float64 \<Rightarrow> float32) \<Rightarrow> nat \<Rightarrow> float64 list \<Rightarrow> float32 list \<Rightarrow> float32 list" where
  "convertToFloat32_loop narrow i [] f32 = f32"
| "convertToFloat32_loop narrow i (v # rest) f32 =
     convertToFloat32_loop narrow (Suc i) rest (f32[i := narrow v])"

definition convertToFloat32 :: "(float64 \<Rightarrow> float32) \<Rightarrow> float64 list \<Rightarrow> float32 list" where
  "convertToFloat32 narrow f64 =
     convertToFloat32_loop narrow 0 f64 (replicate (length f64) 0)"

subsection \<open>Constants\<close>

definition ollamaModel :: string where
  "ollamaModel = ''llama3.2''"

definition className :: string where
  "className = ''Sbb''"

definition collectionName :: string where
  "collectionName = ''documents''"

text \<open>
  The string literals of \<open>processQuery\<close> are Korean text; they are given by their UTF-8
  bytes. In the order of the source: the answer returned when the embedding of the query
  fails, when the search fails and when the generation fails; the first line of the
  context (it ends with a newline); the two labels put around the query in the prompt.
\<close>

definition apology_embedding :: string where
  "apology_embedding =
    [CHR 0xEC, CHR 0xA3, CHR 0x84, CHR 0xEC, CHR 0x86, CHR 0xA1, CHR 0xED, CHR 0x95,
     CHR 0xA9, CHR 0xEB, CHR 0x8B, CHR 0x88, CHR 0xEB, CHR 0x8B, CHR 0xA4, CHR 0x2E,
     CHR 0x20, CHR 0xEC, CHR 0xBF, CHR 0xBC, CHR 0xEB, CHR 0xA6, CHR 0xAC, CHR 0x20,
     CHR 0xEC, CHR 0xB2, CHR 0x98, CHR 0xEB, CHR 0xA6, CHR 0xAC, CHR 0x20, CHR 0xEC,
     CHR 0xA4, CHR 0x91, CHR 0x20, CHR 0xEC, CHR 0x98, CHR 0xA4, CHR 0xEB, CHR 0xA5,
     CHR 0x98, CHR 0xEA, CHR 0xB0, CHR 0x80, CHR 0x20, CHR 0xEB, CHR 0xB0, CHR 0x9C,
     CHR 0xEC, CHR 0x83, CHR 0x9D, CHR 0xED, CHR 0x96, CHR 0x88, CHR 0xEC, CHR 0x8A,
     CHR 0xB5, CHR 0xEB, CHR 0x8B, CHR 0x88, CHR 0xEB, CHR 0x8B, CHR 0xA4, CHR 0x2E]"

definition apology_search :: string where
  "apology_search =
    [CHR 0xEC, CHR 0xA3, CHR 0x84, CHR 0xEC, CHR 0x86, CHR 0xA1, CHR 0xED, CHR 0x95,
     CHR 0xA9, CHR 0xEB, CHR 0x8B, CHR 0x88, CHR 0xEB, CHR 0x8B, CHR 0xA4, CHR 0x2E,
     CHR 0x20, CHR 0xEA, CHR 0xB4, CHR 0x80, CHR 0xEB, CHR 0xA0, CHR 0xA8, CHR 0x20,
     CHR 0xEC, CHR 0xA0, CHR 0x95, CHR 0xEB, CHR 0xB3, CHR 0xB4, CHR 0xEB, CHR 0xA5,
     CHR 0xBC, CHR 0x20, CHR 0xEC, CHR 0xB0, CHR 0xBE, CHR 0xEB, CHR 0x8A, CHR 0x94,
     CHR 0x20, CHR 0xEC, CHR 0xA4, CHR 0x91, CHR 0x20, CHR 0xEC, CHR 0x98, CHR 0xA4,
     CHR 0xEB, CHR 0xA5, CHR 0x98, CHR 0xEA, CHR 0xB0, CHR 0x80, CHR 0x20, CHR 0xEB,
     CHR 0xB0, CHR 0x9C, CHR 0xEC, CHR 0x83, CHR 0x9D, CHR 0xED, CHR 0x96, CHR 0x88,
     CHR 0xEC, CHR 0x8A, CHR 0xB5, CHR 0xEB, CHR 0x8B, CHR 0x88, CHR 0xEB, CHR 0x8B,
     CHR 0xA4, CHR 0x2E]"

definition apology_generate :: string where
  "apology_generate =
    [CHR 0xEC, CHR 0xA3, CHR 0x84, CHR 0xEC, CHR 0x86, CHR 0xA1, CHR 0xED, CHR 0x95,
     CHR 0xA9, CHR 0xEB, CHR 0x8B, CHR 0x88, CHR 0xEB, CHR 0x8B, CHR 0xA4, CHR 0x2E,
     CHR 0x20, CHR 0xEB, CHR 0x8B, CHR 0xB5, CHR 0xEB, CHR 0xB3, CHR 0x80, CHR 0xEC,
     CHR 0x9D, CHR 0x84, CHR 0x20, CHR 0xEC, CHR 0x83, CHR 0x9D, CHR 0xEC, CHR 0x84,
     CHR 0xB1, CHR 0xED, CHR 0x95, CHR 0x98, CHR 0xEB, CHR 0x8A, CHR 0x94, CHR 0x20,
     CHR 0xEC, CHR 0xA4, CHR 0x91, CHR 0x20, CHR 0xEC, CHR 0x98, CHR 0xA4, CHR 0xEB,
     CHR 0xA5, CHR 0x98, CHR 0xEA, CHR 0xB0, CHR 0x80, CHR 0x20, CHR 0xEB, CHR 0xB0,
     CHR 0x9C, CHR 0xEC, CHR 0x83, CHR 0x9D, CHR 0xED, CHR 0x96, CHR 0x88, CHR 0xEC,
     CHR 0x8A, CHR 0xB5, CHR 0xEB, CHR 0x8B, CHR 0x88, CHR 0xEB, CHR 0x8B, CHR 0xA4,
     CHR 0x2E]"

definition context_header :: string where
  "context_header =
    [CHR 0xEB, CHR 0x8B, CHR 0xA4, CHR 0xEC, CHR 0x9D, CHR 0x8C, CHR 0x20, CHR 0xEC,
     CHR 0xA0, CHR 0x95, CHR 0xEB, CHR 0xB3, CHR 0xB4, CHR 0xEB, CHR 0xA5, CHR 0xBC,
     CHR 0x20, CHR 0xEB, CHR 0xB0, CHR 0x94, CHR 0xED, CHR 0x83, CHR 0x95, CHR 0xEC,
     CHR 0x9C, CHR 0xBC, CHR 0xEB, CHR 0xA1, CHR 0x9C, CHR 0x20, CHR 0xEC, CHR 0xA7,
     CHR 0x88, CHR 0xEB, CHR 0xAC, CHR 0xB8, CHR 0xEC, CHR 0x97, CHR 0x90, CHR 0x20,
     CHR 0xEB, CHR 0x8B, CHR 0xB5, CHR 0xED, CHR 0x95, CHR 0x98, CHR 0xEC, CHR 0x84,
     CHR 0xB8, CHR 0xEC, CHR 0x9A, CHR 0x94, CHR 0x3A, CHR 0x0A]"

definition question_label :: string where
  "question_label =
    [CHR 0x0A, CHR 0xEC, CHR 0xA7, CHR 0x88, CHR 0xEB, CHR 0xAC, CHR 0xB8, CHR 0x3A,
     CHR 0x20]"

definition answer_label :: string where
  "answer_label =
    [CHR 0x0A, CHR 0xEB, CHR 0x8B, CHR 0xB5, CHR 0xEB, CHR 0xB3, CHR 0x80, CHR 0x3A]"

subsection \<open>The clients\<close>

text \<open>
  The remote calls are parameters. Each returns a result or an error value of a type
  \<open>'e\<close>, as its Go signature says.
  \<^item> \<open>Embeddings\<close>: the model and the prompt of the request give the field \<open>Embedding\<close> of
    the response, or an error.
  \<^item> \<open>Generate\<close>: the model and the prompt of the request give the \<open>Response\<close> fields of
    the streamed responses, in the order in which the callback receives them, and the
    error returned at the end (if any).
  \<^item> The dispatch of a GraphQL \<open>Get\<close> to Weaviate: the class name, the field names, the
    built nearVector clause and the limit give the field \<open>Data\<close> of the response, or an
    error.
  \<^item> \<open>Search\<close> of Qdrant: the collection name, the vector, the limit and the payload
    switch give the field \<open>Result\<close> of the response, or an error.
  What the programs print (\<open>log.Printf\<close>, \<open>fmt.Println\<close>) is no part of what they return
  and is left out.
\<close>

record 'e ollama_client =
  Embeddings :: "string \<Rightarrow> string \<Rightarrow> 'e + float64 list"
  Generate :: "string \<Rightarrow> string \<Rightarrow> string list \<times> 'e option"

text \<open>A value decoded from JSON into \<open>interface{}\<close>; an object is the list of its members.\<close>

datatype json =
  JNull | JBool bool | JNumber float64 | JString string
  | JArray "json list" | JObject "(string \<times> json) list"

type_synonym 'e weaviate_client =
  "string \<Rightarrow> string list \<Rightarrow> string \<Rightarrow> nat \<Rightarrow> 'e + (string \<times> json) list"

text \<open>
  Modelled from the spec: \<open>Do\<close> of the \<open>Get\<close> builder of the Weaviate client, a file of the
  client library that is not among the sources. The search request is built by the query
  builder before it is dispatched, and the search is executed with what the builder gave:
  \<open>Do\<close> runs \<open>build\<close> on the nearVector builder it was given (\<open>build\<close> is not exported, so
  only this package calls it) and dispatches the query with the built clause. A panic of
  \<open>build\<close> leaves \<open>Do\<close>; otherwise \<open>Do\<close> returns what the dispatch returns.
\<close>

definition Get_Do ::
  "'mt golib \<Rightarrow> 'e weaviate_client \<Rightarrow> string \<Rightarrow> string list \<Rightarrow> 'mt NearVectorArgumentBuilder
     \<Rightarrow> nat \<Rightarrow> panic + ('e + (string \<times> json) list)" where
  "Get_Do L weaviateClient class_name field_names nearVector limit =
     (case build L nearVector of
        Inl p \<Rightarrow> Inl p
      | Inr clause \<Rightarrow> Inr (weaviateClient class_name field_names clause limit))"

text \<open>
  A Qdrant payload value with its kind. \<open>GetStringValue\<close> is the generated getter: the
  string of a string value, the empty string for any other kind and for the \<open>nil\<close> pointer
  that a lookup of a missing key gives.
\<close>

datatype Value =
  NullValue | DoubleValue float64 | IntegerValue "64 word" | StringValue string
  | BoolValue bool
  | StructValue "(string \<times> Value) list" | ListValue "Value list"

fun GetStringValue :: "Value option \<Rightarrow> string" where
  "GetStringValue (Some (StringValue s)) = s"
| "GetStringValue _ = []"

record ScoredPoint =
  Payload :: "(string \<times> Value) list"

type_synonym 'e qdrant_client =
  "string \<Rightarrow> float32 list \<Rightarrow> nat \<Rightarrow> bool \<Rightarrow> 'e + ScoredPoint list"

subsection \<open>processQuery of main.go\<close>

text \<open>
  The loop of lines 132 to 138 over \<open>documents\<close>: a document that is an object with a
  string under \<open>text\<close> adds that text and a newline to \<open>context\<close>; any other document
  leaves \<open>context\<close> as it is (both type assertions are of the comma-ok form).
\<close>

fun context_loop :: "json list \<Rightarrow> string \<Rightarrow> string" where
  "context_loop [] context = context"
| "context_loop (doc # documents) context =
     (case doc of
        JObject item \<Rightarrow>
          (case map_of item ''text'' of
             Some (JString text) \<Rightarrow> context_loop documents (context @ text @ [CHR 0x0A])
           | _ \<Rightarrow> context_loop documents context)
      | _ \<Rightarrow> context_loop documents context)"

text \<open>Lines 129 to 140: the context made from the field \<open>Data\<close> of the response.\<close>

definition build_context :: "(string \<times> json) list \<Rightarrow> string" where
  "build_context Data =
     (let context = context_header
      in case map_of Data ''Get'' of
           Some (JObject data) \<Rightarrow>
             (case map_of data className of
                Some (JArray documents) \<Rightarrow> context_loop documents context
              | _ \<Rightarrow> context)
         | _ \<Rightarrow> context)"

text \<open>The callback of \<open>Generate\<close> appends each response to \<open>answer\<close>, which starts empty.\<close>

definition collect_answer :: "string list \<Rightarrow> string" where
  "collect_answer responses = foldl (\<lambda>answer response. answer @ response) [] responses"

text \<open>
  \<open>processQuery\<close> has no \<open>recover\<close>: a panic that leaves the search leaves \<open>processQuery\<close>
  too, and is its outcome here; otherwise it returns a string.
\<close>

definition processQuery ::
  "'mt golib \<Rightarrow> (float64 \<Rightarrow> float32) \<Rightarrow> 'e ollama_client \<Rightarrow> 'e weaviate_client \<Rightarrow> string
     \<Rightarrow> panic + string" where
  "processQuery L narrow ollamaClient weaviateClient query =
     (case Embeddings ollamaClient ollamaModel query of
        Inl err \<Rightarrow> Inr apology_embedding
      | Inr embedding \<Rightarrow>
         (let nearVector = WithVector (convertToFloat32 narrow embedding) new_builder
          in case Get_Do L weaviateClient className [''text''] nearVector 3 of
               Inl p \<Rightarrow> Inl p
             | Inr (Inl err) \<Rightarrow> Inr apology_search
             | Inr (Inr Data) \<Rightarrow>
                (let context = build_context Data
                 in case Generate ollamaClient ollamaModel
                           (context @ question_label @ query @ answer_label) of
                      (responses, Some err) \<Rightarrow> Inr apology_generate
                    | (responses, None) \<Rightarrow> Inr (collect_answer responses))))"

subsection \<open>processQuery of the Qdrant variant\<close>

text \<open>
  The loop of lines 135 to 137 over \<open>searchResp.Result\<close>: every point adds the string
  value of its payload entry \<open>text\<close> and a newline.
\<close>

fun context_loop_qdrant :: "ScoredPoint list \<Rightarrow> string \<Rightarrow> string" where
  "context_loop_qdrant [] context = context"
| "context_loop_qdrant (point # points) context =
     context_loop_qdrant points
       (context @ GetStringValue (map_of (Payload point) ''text'') @ [CHR 0x0A])"

definition processQuery_qdrant ::
  "(float64 \<Rightarrow> float32) \<Rightarrow> 'e ollama_client \<Rightarrow> 'e qdrant_client \<Rightarrow> string \<Rightarrow> string" where
  "processQuery_qdrant narrow ollamaClient qdrantClient query =
     (case Embeddings ollamaClient ollamaModel query of
        Inl err \<Rightarrow> apology_embedding
      | Inr embedding \<Rightarrow>
         (case qdrantClient collectionName (convertToFloat32 narrow embedding) 3 True of
            Inl err \<Rightarrow> apology_search
          | Inr Result \<Rightarrow>
             (let context = context_loop_qdrant Result context_header
              in case Generate ollamaClient ollamaModel
                        (context @ question_label @ query @ answer_label) of
                   (responses, Some err) \<Rightarrow> apology_generate
                 | (responses, None) \<Rightarrow> collect_answer responses)))"

section \<open>Vocabulary of the properties\<close>

text \<open>
  A clause of the built argument is named by the text it starts with: \<open>vector: \<close> for the
  single vector field, \<open>vectorPerTarget: {\<close> for the per-target vector lists.
\<close>

definition has_clause :: "string \<Rightarrow> string list \<Rightarrow> bool" where
  "has_clause key clause = list_ex (prefix key) clause"

text \<open>A float that is neither a NaN nor an infinity, and vectors of such floats.\<close>

definition finite32 :: "float32 \<Rightarrow> bool" where
  "finite32 f = (\<not> isInf32 f \<and> \<not> isNaN32 f)"

definition vector_finite :: "float32 list \<Rightarrow> bool" where
  "vector_finite v = list_all finite32 v"

definition per_target_finite :: "(string \<times> float32 slice slice) list \<Rightarrow> bool" where
  "per_target_finite m =
     list_all (\<lambda>(k, v). list_all (\<lambda>s. vector_finite (elems s)) (elems v)) m"

text \<open>
  The vectors that \<open>build\<close> hands to \<open>json.Marshal\<close>: those of the mapping when it is not
  empty, the primary vector otherwise.
\<close>

definition serialized_finite :: "'mt NearVectorArgumentBuilder \<Rightarrow> bool" where
  "serialized_finite b =
     (if vectorsPerTarget b \<noteq> [] then per_target_finite (vectorsPerTarget b)
      else vector_finite (vector b))"

text \<open>
  The clauses that \<open>build\<close> writes before and after the vectors: the thresholds, and the
  targets with the target vectors. They serve to state what \<open>build_clauses\<close> returns.
\<close>

definition threshold_clauses ::
  "'mt golib \<Rightarrow> 'mt NearVectorArgumentBuilder \<Rightarrow> string list" where
  "threshold_clauses L b =
     (if withCertainty b then [''certainty: '' @ sprint_float32 L (certainty b)] else [])
     @ (if withDistance b then [''distance: '' @ sprint_float32 L (distance b)] else [])"

definition target_clauses ::
  "'mt golib \<Rightarrow> 'mt NearVectorArgumentBuilder \<Rightarrow> string list" where
  "target_clauses L b =
     (case targets b of Some t \<Rightarrow> [''targets: {'' @ targets_build L t @ ''}''] | None \<Rightarrow> [])
     @ (if prepareTargetVectors b (targetVectors b) \<noteq> []
        then [''targetVectors: '' @
               (case marshal_strings L (prepareTargetVectors b (targetVectors b)) of
                  Inl err \<Rightarrow> [] | Inr bytes \<Rightarrow> bytes)]
        else [])"

text \<open>
  The per-target vector lists as the query carries them: the JSON text of the vectors of
  a target (\<open>null\<close> for a \<open>nil\<close> slice, the floats between brackets otherwise), one entry
  \<open>name: vectors\<close> for each entry of the mapping, in its order, and the clause made of the
  entries.
\<close>

fun render_vector :: "'mt golib \<Rightarrow> float32 slice \<Rightarrow> string" where
  "render_vector L NilSlice = ''null''"
| "render_vector L (Slice fs) = ''['' @ strings_Join (map (json_float32 L) fs) '','' @ '']''"

fun render_vectors :: "'mt golib \<Rightarrow> float32 slice slice \<Rightarrow> string" where
  "render_vectors L NilSlice = ''null''"
| "render_vectors L (Slice vs) = ''['' @ strings_Join (map (render_vector L) vs) '','' @ '']''"

definition per_target_entries ::
  "'mt golib \<Rightarrow> (string \<times> float32 slice slice) list \<Rightarrow> string list" where
  "per_target_entries L m = map (\<lambda>(k, v). k @ '': '' @ render_vectors L v) m"

definition per_target_clause ::
  "'mt golib \<Rightarrow> (string \<times> float32 slice slice) list \<Rightarrow> string" where
  "per_target_clause L m = ''vectorPerTarget: {'' @ strings_Join (per_target_entries L m) '','' @ ''}''"

text \<open>
  The errors that \<open>json.Marshal\<close> can give on vectors of floats, and the vectors of one
  target that it encodes without error.
\<close>

definition special_error :: "json_error \<Rightarrow> bool" where
  "special_error err =
     (\<exists>str. str \<in> {''NaN'', ''+Inf'', ''-Inf''} \<and> err = UnsupportedValueError str)"

definition vectors_finite :: "float32 slice slice \<Rightarrow> bool" where
  "vectors_finite v = list_all (\<lambda>s. vector_finite (elems s)) (elems v)"

text \<open>The \<open>text\<close> of a retrieved Weaviate document, if it has one that is a string.\<close>

fun text_of :: "json \<Rightarrow> string option" where
  "text_of (JObject item) =
     (case map_of item ''text'' of Some (JString text) \<Rightarrow> Some text | _ \<Rightarrow> None)"
| "text_of _ = None"

text \<open>A text on a line of its own.\<close>

definition line :: "string \<Rightarrow> string" where
  "line t = t @ [CHR 0x0A]"

section \<open>Concrete values for evaluation\<close>

text \<open>
  The bit patterns of the \<open>float32\<close> values 1, 0.5, a NaN and the two infinities, and of
  the \<open>float64\<close> values 1, 0.5 and 1e39 (a finite \<open>float64\<close> above the largest
  \<open>float32\<close>).
\<close>

definition f32_one :: float32 where "f32_one = 0x3F800000"
definition f32_half :: float32 where "f32_half = 0x3F000000"
definition f32_NaN :: float32 where "f32_NaN = 0x7FC00000"
definition f32_posInf :: float32 where "f32_posInf = 0x7F800000"
definition f32_negInf :: float32 where "f32_negInf = 0xFF800000"
definition f64_one :: float64 where "f64_one = 0x3FF0000000000000"
definition f64_half :: float64 where "f64_half = 0x3FE0000000000000"
definition f64_1e39 :: float64 where "f64_1e39 = 0x48078287F49C4A1D"

text \<open>
  The library functions on the values that the examples use: Go prints the floats 1 and
  0.5 as \<open>1\<close> and \<open>0.5\<close>, with \<open>%v\<close> and in JSON alike, and quotes a string of plain
  letters as it is; \<open>float32(v)\<close> keeps 1 and 0.5 and turns 1e39 into the positive
  infinity. The tables say nothing about other
  values (they answer with a question mark, or with zero), and no example reads them there.
\<close>

definition go_lib_sample :: "unit golib" where
  "go_lib_sample = \<lparr>
     sprint_float32 = (\<lambda>f. if f = f32_one then ''1'' else if f = f32_half then ''0.5'' else ''?''),
     json_float32 = (\<lambda>f. if f = f32_one then ''1'' else if f = f32_half then ''0.5'' else ''?''),
     json_string = (\<lambda>s. [CHR 0x22] @ s @ [CHR 0x22]),
     targets_build = (\<lambda>t. [])\<rparr>"

definition narrow_sample :: "float64 \<Rightarrow> float32" where
  "narrow_sample v =
     (if v = f64_one then f32_one else if v = f64_half then f32_half
      else if v = f64_1e39 then f32_posInf else 0)"

definition fresh_builder :: "unit NearVectorArgumentBuilder" where
  "fresh_builder = new_builder"

text \<open>
  Clients for the examples. The Ollama client answers an embedding request with the vector
  (1, 0.5) or with an error, and a generation request with one response that repeats the
  prompt, or with an error. The Weaviate and Qdrant clients answer every search with
  the given outcome.
\<close>

definition sample_ollama :: "bool \<Rightarrow> bool \<Rightarrow> string ollama_client" where
  "sample_ollama embed_ok generate_ok = \<lparr>
     Embeddings = (\<lambda>model prompt.
       if embed_ok then Inr [f64_one, f64_half] else Inl ''embedding service down''),
     Generate = (\<lambda>model prompt.
       if generate_ok then ([prompt], None) else ([], Some ''generation service down''))\<rparr>"

definition weaviate_answering ::
  "string + (string \<times> json) list \<Rightarrow> string weaviate_client" where
  "weaviate_answering outcome = (\<lambda>class_name field_names nearVector_clause limit. outcome)"

text \<open>An Ollama client whose embedding of every prompt is the one-dimensional vector (1e39).\<close>

definition ollama_huge_embedding :: "string ollama_client" where
  "ollama_huge_embedding = \<lparr>
     Embeddings = (\<lambda>model prompt. Inr [f64_1e39]),
     Generate = (\<lambda>model prompt. ([prompt], None))\<rparr>"

definition qdrant_answering :: "string + ScoredPoint list \<Rightarrow> string qdrant_client" where
  "qdrant_answering outcome = (\<lambda>collection v limit with_payload. outcome)"

text \<open>
  A Weaviate response with three documents, the second without a \<open>text\<close>, and a Qdrant
  response with three points, the second without a \<open>text\<close> in its payload.
\<close>

definition weaviate_data_sample :: "(string \<times> json) list" where
  "weaviate_data_sample =
     [(''Get'', JObject [(''Sbb'', JArray
        [JObject [(''text'', JString ''first'')],
         JObject [(''title'', JString ''untitled'')],
         JObject [(''text'', JString ''third'')]])])]"

definition qdrant_result_sample :: "ScoredPoint list" where
  "qdrant_result_sample =
     [\<lparr>Payload = [(''text'', StringValue ''first'')]\<rparr>,
      \<lparr>Payload = [(''title'', StringValue ''untitled'')]\<rparr>,
      \<lparr>Payload = [(''text'', StringValue ''third'')]\<rparr>]"

section \<open>Properties of prepareTargetVectors\<close>

lemma append_per_vector_replicate:
  "append_per_vector vs target out = out @ replicate (length vs) target"
  by (induction vs arbitrary: out) (simp_all add: replicate_app_Cons_same)

lemma prepareTargetVectors_loop_reconciled:
  "prepareTargetVectors_loop m declared out = out @ reconciled_targets m declared"
proof (induction declared arbitrary: out)
  case Nil
  show ?case by (simp add: reconciled_targets_def)
next
  case (Cons target rest)
  show ?case
  proof (cases "map_of m target")
    case None
    then show ?thesis
      by (simp add: Cons.IH reconciled_targets_def)
  next
    case (Some vectors)
    then show ?thesis
      by (simp add: Cons.IH reconciled_targets_def append_per_vector_replicate len_def)
  qed
qed

lemma set_reconciled_targets: "set (reconciled_targets m declared) \<subseteq> set declared"
  by (auto simp: reconciled_targets_def split: option.splits)

text \<open>
  Claim C1. For every declared target list and every multi-target vector mapping, the
  list that \<open>prepareTargetVectors\<close> returns repeats each declared target once per vector
  the mapping holds for it and writes a declared target without an entry once, in the
  order of the declared targets. For the declared targets \<open>[t1, t2]\<close> and the mapping
  \<open>{t1: [v1, v2]}\<close> (so \<open>t2\<close> is another name than \<open>t1\<close>) the result is \<open>[t1, t1, t2]\<close>.
\<close>

theorem prepareTargetVectors_reconciles:
  "prepareTargetVectors b declared = reconciled_targets (vectorsPerTarget b) declared
   \<and> (t1 \<noteq> t2 \<longrightarrow>
        prepareTargetVectors (b\<lparr>vectorsPerTarget := [(t1, Slice [v1, v2])]\<rparr>) [t1, t2]
          = [t1, t1, t2])"
proof
  show "prepareTargetVectors b declared = reconciled_targets (vectorsPerTarget b) declared"
    by (simp add: prepareTargetVectors_def prepareTargetVectors_loop_reconciled)
  show "t1 \<noteq> t2 \<longrightarrow>
        prepareTargetVectors (b\<lparr>vectorsPerTarget := [(t1, Slice [v1, v2])]\<rparr>) [t1, t2]
          = [t1, t1, t2]"
    by (simp add: prepareTargetVectors_def)
qed

theorem prepareTargetVectors_reconciles_witness:
  "''t1'' \<noteq> ''t2''
   \<and> prepareTargetVectors
         (fresh_builder\<lparr>vectorsPerTarget := [(''t1'', Slice [Slice [f32_one], Slice [f32_half]])]\<rparr>)
         [''t1'', ''t2'']
       = [''t1'', ''t1'', ''t2'']"
  using prepareTargetVectors_reconciles
    [of fresh_builder "[''t1'', ''t2'']" "''t1''" "''t2''" "Slice [f32_one]" "Slice [f32_half]"]
  by simp

text \<open>
  Claim C9. Every element of the list that \<open>prepareTargetVectors\<close> returns is a declared
  target; a target that has an entry in the vector mapping and is not declared is not in
  the list.
\<close>

theorem prepareTargetVectors_only_declared:
  "set (prepareTargetVectors b declared) \<subseteq> set declared
   \<and> (map_of (vectorsPerTarget b) t \<noteq> None \<and> t \<notin> set declared
        \<longrightarrow> t \<notin> set (prepareTargetVectors b declared))"
proof -
  have "set (prepareTargetVectors b declared) \<subseteq> set declared"
    by (simp add: prepareTargetVectors_def prepareTargetVectors_loop_reconciled
        set_reconciled_targets)
  then show ?thesis by blast
qed

theorem prepareTargetVectors_only_declared_witness:
  "map_of (vectorsPerTarget
      (fresh_builder\<lparr>vectorsPerTarget := [(''extra'', Slice [Slice [f32_one]])]\<rparr>)) ''extra''
     \<noteq> None
   \<and> ''extra'' \<notin> set [''t1'']
   \<and> ''extra'' \<notin> set (prepareTargetVectors
         (fresh_builder\<lparr>vectorsPerTarget := [(''extra'', Slice [Slice [f32_one]])]\<rparr>) [''t1''])"
  using prepareTargetVectors_only_declared
    [of "fresh_builder\<lparr>vectorsPerTarget := [(''extra'', Slice [Slice [f32_one]])]\<rparr>"
        "[''t1'']" "''extra''"]
  by simp

section \<open>Properties of convertToFloat32\<close>

lemma convertToFloat32_loop_map:
  "length f32 = i + length vs \<Longrightarrow>
   convertToFloat32_loop narrow i vs f32 = take i f32 @ map narrow vs"
proof (induction vs arbitrary: i f32)
  case Nil
  then show ?case by simp
next
  case (Cons v rest)
  have "i < length f32" using Cons.prems by simp
  then have "take (Suc i) (f32[i := narrow v]) = take i f32 @ [narrow v]"
    by (simp add: take_Suc_conv_app_nth)
  moreover have "length (f32[i := narrow v]) = Suc i + length rest"
    using Cons.prems by simp
  ultimately show ?case
    using Cons.IH [of "f32[i := narrow v]" "Suc i"] by simp
qed

lemma convertToFloat32_map: "convertToFloat32 narrow f64 = map narrow f64"
  by (simp add: convertToFloat32_def convertToFloat32_loop_map)

text \<open>
  Claim C10. For every list of \<open>float64\<close> values, \<open>convertToFloat32\<close> returns a list of the
  same length whose element at each index is the \<open>float32\<close> conversion of the input's
  element at that index; so the dimension of an embedding is kept.
\<close>

theorem convertToFloat32_elementwise:
  "length (convertToFloat32 narrow f64) = length f64
   \<and> (\<forall>i. i < length f64 \<longrightarrow> convertToFloat32 narrow f64 ! i = narrow (f64 ! i))"
  by (simp add: convertToFloat32_map)

theorem convertToFloat32_elementwise_witness:
  "(1::nat) < length [f64_one, f64_half]
   \<and> length (convertToFloat32 narrow_sample [f64_one, f64_half]) = 2
   \<and> convertToFloat32 narrow_sample [f64_one, f64_half] ! 1 = f32_half"
  using convertToFloat32_elementwise [of narrow_sample "[f64_one, f64_half]"]
  by (simp add: narrow_sample_def f64_one_def f64_half_def)

section \<open>Properties of processQuery\<close>

lemma context_loop_texts:
  "context_loop documents c = c @ concat (map line (List.map_filter text_of documents))"
proof (induction documents arbitrary: c)
  case Nil
  show ?case by (simp add: List.map_filter_simps)
next
  case (Cons doc documents)
  show ?case
  proof (cases "text_of doc")
    case None
    then have "context_loop (doc # documents) c = context_loop documents c"
      by (cases doc) (auto split: option.splits json.splits)
    with None show ?thesis by (simp add: Cons.IH List.map_filter_simps)
  next
    case (Some t)
    then have "context_loop (doc # documents) c
                 = context_loop documents (c @ t @ [CHR 0x0A])"
      by (cases doc) (auto split: option.splits json.splits)
    with Some show ?thesis by (simp add: Cons.IH List.map_filter_simps line_def)
  qed
qed

lemma context_loop_qdrant_lines:
  "context_loop_qdrant points c =
     c @ concat (map (\<lambda>point. line (GetStringValue (map_of (Payload point) ''text''))) points)"
  by (induction points arbitrary: c) (simp_all add: line_def)

text \<open>
  Claim C7. For every list of retrieved results, the context is the fixed header followed
  by the text of each result, each on a line of its own, in the order in which the results
  were returned. In \<open>main.go\<close> the results are the documents under \<open>Get\<close> and the class
  name, and the texts are those of the documents that have one; when every document
  carries its text, the context is the header and these texts line by line. In the Qdrant
  variant the text of a point is the string value of its payload entry \<open>text\<close>. The
  context is a function of the result list alone.
\<close>

theorem context_in_result_order:
  "(map_of Data ''Get'' = Some (JObject data) \<and> map_of data className = Some (JArray documents)
      \<longrightarrow> build_context Data
            = context_header @ concat (map line (List.map_filter text_of documents)))
   \<and> build_context [(''Get'', JObject [(className, JArray (map (\<lambda>t. JObject [(''text'', JString t)]) texts))])]
        = context_header @ concat (map line texts)
   \<and> context_loop_qdrant Result context_header
        = context_header
          @ concat (map (\<lambda>point. line (GetStringValue (map_of (Payload point) ''text''))) Result)"
proof (intro conjI impI)
  assume "map_of Data ''Get'' = Some (JObject data) \<and> map_of data className = Some (JArray documents)"
  then show "build_context Data
            = context_header @ concat (map line (List.map_filter text_of documents))"
    by (simp add: build_context_def context_loop_texts)
next
  have "List.map_filter text_of (map (\<lambda>t. JObject [(''text'', JString t)]) texts) = texts"
    by (induction texts) (simp_all add: List.map_filter_simps)
  then show "build_context [(''Get'', JObject [(className, JArray (map (\<lambda>t. JObject [(''text'', JString t)]) texts))])]
        = context_header @ concat (map line texts)"
    by (simp add: build_context_def context_loop_texts)
next
  show "context_loop_qdrant Result context_header
        = context_header
          @ concat (map (\<lambda>point. line (GetStringValue (map_of (Payload point) ''text''))) Result)"
    by (rule context_loop_qdrant_lines)
qed


theorem context_in_result_order_witness:
  "map_of weaviate_data_sample ''Get''
     = Some (JObject [(''Sbb'', JArray
        [JObject [(''text'', JString ''first'')],
         JObject [(''title'', JString ''untitled'')],
         JObject [(''text'', JString ''third'')]])])
   \<and> build_context weaviate_data_sample
       = context_header @ ''first'' @ [CHR 0x0A] @ ''third'' @ [CHR 0x0A]
   \<and> context_loop_qdrant qdrant_result_sample context_header
       = context_header @ ''first'' @ [CHR 0x0A] @ [CHR 0x0A] @ ''third'' @ [CHR 0x0A]"
  using context_in_result_order
    [of weaviate_data_sample
        "[(''Sbb'', JArray
            [JObject [(''text'', JString ''first'')],
             JObject [(''title'', JString ''untitled'')],
             JObject [(''text'', JString ''third'')]])]"
        "[JObject [(''text'', JString ''first'')],
          JObject [(''title'', JString ''untitled'')],
          JObject [(''text'', JString ''third'')]]"
        "[]" qdrant_result_sample]
  by (simp add: weaviate_data_sample_def qdrant_result_sample_def className_def
      List.map_filter_simps line_def)

section \<open>Properties of build\<close>

lemma has_clause_append: "has_clause key (xs @ ys) = (has_clause key xs \<or> has_clause key ys)"
  by (simp add: has_clause_def)

lemma has_clause_simps:
  "has_clause key [] = False"
  "has_clause key (c # cs) = (prefix key c \<or> has_clause key cs)"
  by (simp_all add: has_clause_def)

lemma threshold_clauses_no_vectors:
  "\<not> has_clause ''vector: '' (threshold_clauses L b)"
  "\<not> has_clause ''vectorPerTarget: {'' (threshold_clauses L b)"
  by (simp_all add: threshold_clauses_def has_clause_simps has_clause_append)

lemma target_clauses_no_vectors:
  "\<not> has_clause ''vector: '' (target_clauses L b)"
  "\<not> has_clause ''vectorPerTarget: {'' (target_clauses L b)"
  by (simp_all add: target_clauses_def has_clause_simps has_clause_append split: option.splits)

lemma build_clauses_cases:
  "build_clauses L b =
     (if vectorsPerTarget b \<noteq> []
      then (case vectorPerTarget_loop L (vectorsPerTarget b) [] of
              Inl p \<Rightarrow> Inl p
            | Inr entries \<Rightarrow>
                Inr (threshold_clauses L b
                     @ [''vectorPerTarget: {'' @ strings_Join entries '','' @ ''}'']
                     @ target_clauses L b))
      else if vector b \<noteq> []
      then (case marshal_vector L (vector b) of
              Inl err \<Rightarrow>
                Inl (PanicError (''failed to unmarshal nearVector search vector: '' @ json_Error err))
            | Inr vectorB \<Rightarrow>
                Inr (threshold_clauses L b @ [''vector: '' @ vectorB] @ target_clauses L b))
      else Inr (threshold_clauses L b @ target_clauses L b))"
  by (simp add: build_clauses_def threshold_clauses_def target_clauses_def Let_def
      split: sum.splits option.splits)


lemma formatSpecial32_cases: "formatSpecial32 f \<in> {''NaN'', ''+Inf'', ''-Inf''}"
  by (simp add: formatSpecial32_def)

lemma marshal_elems_Inr:
  "list_all (\<lambda>x. \<exists>s. enc x = Inr s) xs \<Longrightarrow> \<exists>ss. marshal_elems enc xs = Inr ss"
  by (induction xs) auto

lemma marshal_elems_Inl:
  "\<not> list_all (\<lambda>x. \<exists>s. enc x = Inr s) xs \<Longrightarrow>
   \<exists>x err. x \<in> set xs \<and> enc x = Inl err \<and> marshal_elems enc xs = Inl err"
proof (induction xs)
  case Nil
  then show ?case by simp
next
  case (Cons x xs)
  show ?case
  proof (cases "enc x")
    case (Inl err)
    then show ?thesis by auto
  next
    case (Inr s)
    with Cons.prems have "\<not> list_all (\<lambda>x. \<exists>s. enc x = Inr s) xs" by simp
    from Cons.IH [OF this] obtain y err
      where "y \<in> set xs" "enc y = Inl err" "marshal_elems enc xs = Inl err" by blast
    with Inr show ?thesis by auto
  qed
qed

lemma marshal_array_Inr:
  "list_all (\<lambda>x. \<exists>s. enc x = Inr s) xs \<Longrightarrow> \<exists>s. marshal_array enc xs = Inr s"
  using marshal_elems_Inr [of enc xs] by (auto simp: marshal_array_def)

lemma marshal_array_Inl:
  "\<not> list_all (\<lambda>x. \<exists>s. enc x = Inr s) xs \<Longrightarrow>
   \<exists>x err. x \<in> set xs \<and> enc x = Inl err \<and> marshal_array enc xs = Inl err"
  using marshal_elems_Inl [of enc xs] by (auto simp: marshal_array_def)

lemma marshal_slice_Inr:
  "list_all (\<lambda>x. \<exists>s. enc x = Inr s) (elems xs) \<Longrightarrow> \<exists>s. marshal_slice enc xs = Inr s"
  using marshal_array_Inr [of enc "elems xs"] by (cases xs) auto

lemma marshal_slice_Inl:
  "\<not> list_all (\<lambda>x. \<exists>s. enc x = Inr s) (elems xs) \<Longrightarrow>
   \<exists>x err. x \<in> set (elems xs) \<and> enc x = Inl err \<and> marshal_slice enc xs = Inl err"
  using marshal_array_Inl [of enc "elems xs"] by (cases xs) auto

lemma float_ok_iff: "(\<exists>s. marshal_float32 L f = Inr s) = finite32 f"
  by (auto simp: marshal_float32_def finite32_def)

lemma float_err_special: "marshal_float32 L f = Inl err \<Longrightarrow> special_error err"
  using formatSpecial32_cases [of f]
  by (auto simp: marshal_float32_def special_error_def split: if_splits)

lemma marshal_vector_ok: "vector_finite v \<Longrightarrow> \<exists>s. marshal_vector L v = Inr s"
  unfolding marshal_vector_def vector_finite_def
  by (rule marshal_array_Inr) (simp add: float_ok_iff)

lemma marshal_vector_err:
  assumes "\<not> vector_finite v"
  shows "\<exists>err. special_error err \<and> marshal_vector L v = Inl err"
proof -
  from assms have "\<not> list_all (\<lambda>x. \<exists>s. marshal_float32 L x = Inr s) v"
    by (simp add: vector_finite_def float_ok_iff)
  from marshal_array_Inl [OF this] show ?thesis
    unfolding marshal_vector_def using float_err_special by blast
qed

lemma inner_ok_iff:
  "(\<exists>str. marshal_slice (marshal_float32 L) s = Inr str) = vector_finite (elems s)"
proof (cases "vector_finite (elems s)")
  case True
  then have "list_all (\<lambda>x. \<exists>s. marshal_float32 L x = Inr s) (elems s)"
    by (simp add: vector_finite_def float_ok_iff)
  from marshal_slice_Inr [OF this] True show ?thesis by simp
next
  case False
  then have "\<not> list_all (\<lambda>x. \<exists>s. marshal_float32 L x = Inr s) (elems s)"
    by (simp add: vector_finite_def float_ok_iff)
  from marshal_slice_Inl [OF this] False show ?thesis by auto
qed

lemma inner_err_special:
  "marshal_slice (marshal_float32 L) s = Inl err \<Longrightarrow> special_error err"
proof -
  assume a: "marshal_slice (marshal_float32 L) s = Inl err"
  then have "\<not> list_all (\<lambda>x. \<exists>s. marshal_float32 L x = Inr s) (elems s)"
    using marshal_slice_Inr [of "marshal_float32 L" s] by auto
  from marshal_slice_Inl [OF this] a show ?thesis
    using float_err_special by force
qed

lemma marshal_vectors_ok: "vectors_finite v \<Longrightarrow> \<exists>s. marshal_vectors L v = Inr s"
  unfolding marshal_vectors_def vectors_finite_def
  by (rule marshal_slice_Inr) (simp add: inner_ok_iff)

lemma marshal_vectors_err:
  assumes "\<not> vectors_finite v"
  shows "\<exists>err. special_error err \<and> marshal_vectors L v = Inl err"
proof -
  from assms have "\<not> list_all (\<lambda>x. \<exists>s. marshal_slice (marshal_float32 L) x = Inr s) (elems v)"
    by (simp add: vectors_finite_def inner_ok_iff)
  from marshal_slice_Inl [OF this] show ?thesis
    unfolding marshal_vectors_def using inner_err_special by blast
qed

lemma vectorPerTarget_loop_ok:
  "per_target_finite m \<Longrightarrow> \<exists>entries. vectorPerTarget_loop L m acc = Inr entries"
proof (induction m arbitrary: acc)
  case Nil
  show ?case by simp
next
  case (Cons kv m)
  obtain k v where kv: "kv = (k, v)" by (cases kv)
  from Cons.prems kv have "vectors_finite v" and rest: "per_target_finite m"
    by (simp_all add: per_target_finite_def vectors_finite_def)
  from marshal_vectors_ok [OF this(1)] obtain s where "marshal_vectors L v = Inr s" by blast
  with kv Cons.IH [OF rest] show ?case by simp
qed

lemma vectorPerTarget_loop_panics:
  "\<not> per_target_finite m \<Longrightarrow>
   \<exists>err. special_error err
     \<and> vectorPerTarget_loop L m acc
         = Inl (PanicString (''could not marshal vector: '' @ json_Error err))"
proof (induction m arbitrary: acc)
  case Nil
  then show ?case by (simp add: per_target_finite_def)
next
  case (Cons kv m)
  obtain k v where kv: "kv = (k, v)" by (cases kv)
  show ?case
  proof (cases "vectors_finite v")
    case True
    with Cons.prems kv have rest: "\<not> per_target_finite m"
      by (simp add: per_target_finite_def vectors_finite_def)
    from marshal_vectors_ok [OF True] obtain s where "marshal_vectors L v = Inr s" by blast
    with kv Cons.IH [OF rest] show ?thesis by simp
  next
    case False
    from marshal_vectors_err [OF this] obtain err
      where "special_error err" "marshal_vectors L v = Inl err" by blast
    with kv show ?thesis by auto
  qed
qed

lemma build_clauses_returns:
  "serialized_finite b \<Longrightarrow> \<exists>clause. build_clauses L b = Inr clause"
proof -
  assume fin: "serialized_finite b"
  show ?thesis
  proof (cases "vectorsPerTarget b = []")
    case True
    with fin have "vector_finite (vector b)" by (simp add: serialized_finite_def)
    from marshal_vector_ok [OF this] obtain s where "marshal_vector L (vector b) = Inr s"
      by blast
    with True show ?thesis by (simp add: build_clauses_cases)
  next
    case False
    with fin have "per_target_finite (vectorsPerTarget b)" by (simp add: serialized_finite_def)
    from vectorPerTarget_loop_ok [OF this] obtain entries
      where "vectorPerTarget_loop L (vectorsPerTarget b) [] = Inr entries" by blast
    with False show ?thesis by (simp add: build_clauses_cases)
  qed
qed

lemma build_clauses_panics_per_target:
  assumes "vectorsPerTarget b \<noteq> []" and "\<not> per_target_finite (vectorsPerTarget b)"
  shows "\<exists>err. special_error err
     \<and> build_clauses L b = Inl (PanicString (''could not marshal vector: '' @ json_Error err))"
proof -
  from vectorPerTarget_loop_panics [OF assms(2)] obtain err where
    "special_error err"
    "vectorPerTarget_loop L (vectorsPerTarget b) []
       = Inl (PanicString (''could not marshal vector: '' @ json_Error err))"
    by blast
  with assms(1) show ?thesis by (auto simp: build_clauses_cases)
qed

lemma build_clauses_panics_vector:
  assumes "vectorsPerTarget b = []" and "\<not> vector_finite (vector b)"
  shows "\<exists>err. special_error err
     \<and> build_clauses L b
         = Inl (PanicError (''failed to unmarshal nearVector search vector: '' @ json_Error err))"
proof -
  from assms(2) have "vector b \<noteq> []" by (auto simp: vector_finite_def)
  moreover from marshal_vector_err [OF assms(2)] obtain err where
    "special_error err" "marshal_vector L (vector b) = Inl err" by blast
  ultimately show ?thesis using assms(1) by (auto simp: build_clauses_cases)
qed

lemma build_clauses_vector_clause:
  assumes "build_clauses L b = Inr clause"
  shows "has_clause ''vector: '' clause = (vector b \<noteq> [] \<and> vectorsPerTarget b = [])"
    and "has_clause ''vectorPerTarget: {'' clause = (vectorsPerTarget b \<noteq> [])"
  using assms threshold_clauses_no_vectors [of L b] target_clauses_no_vectors [of L b]
  by (auto simp: build_clauses_cases has_clause_append has_clause_simps
      split: if_splits sum.splits)

lemma clauses_WithVector:
  "threshold_clauses L (WithVector v b) = threshold_clauses L b"
  "target_clauses L (WithVector v b) = target_clauses L b"
  by (simp_all add: WithVector_def threshold_clauses_def target_clauses_def
      prepareTargetVectors_def)

lemma build_WithVector_ignored:
  "vectorsPerTarget b \<noteq> [] \<Longrightarrow> build L (WithVector v b) = build L b"
proof -
  assume "vectorsPerTarget b \<noteq> []"
  moreover have "vectorsPerTarget (WithVector v b) = vectorsPerTarget b"
    by (simp add: WithVector_def)
  ultimately have "build_clauses L (WithVector v b) = build_clauses L b"
    by (simp add: build_clauses_cases clauses_WithVector cong: sum.case_cong)
  then show ?thesis by (simp add: build_def)
qed

lemma strings_Join_Cons:
  "strings_Join (x # xs) sep = x @ concat (map (\<lambda>y. sep @ y) xs)"
  by (induction xs arbitrary: x) simp_all

lemmas sample_simps =
  go_lib_sample_def fresh_builder_def new_builder_def WithVector_def WithVectorsPerTarget_def
  WithCertainty_def WithDistance_def WithTargetVectors_def
  f32_one_def f32_half_def f32_NaN_def f32_posInf_def f32_negInf_def
  build_def build_clauses_def prepareTargetVectors_def
  marshal_vector_def marshal_vectors_def marshal_strings_def marshal_array_def
  marshal_float32_def formatSpecial32_def isNaN32_def isInf32_def exponent32_def fraction32_def
  finite32_def vector_finite_def per_target_finite_def serialized_finite_def
  has_clause_def

lemma marshal_elems_map:
  "(\<And>x. x \<in> set xs \<Longrightarrow> enc x = Inr (f x)) \<Longrightarrow> marshal_elems enc xs = Inr (map f xs)"
  by (induction xs) simp_all

lemma marshal_vector_slice_render:
  assumes "vector_finite (elems s)"
  shows "marshal_slice (marshal_float32 L) s = Inr (render_vector L s)"
proof (cases s)
  case NilSlice
  then show ?thesis by simp
next
  case (Slice fs)
  with assms have "\<And>f. f \<in> set fs \<Longrightarrow> marshal_float32 L f = Inr (json_float32 L f)"
    by (auto simp: vector_finite_def list_all_iff marshal_float32_def finite32_def)
  then have "marshal_elems (marshal_float32 L) fs = Inr (map (json_float32 L) fs)"
    by (rule marshal_elems_map)
  with Slice show ?thesis by (simp add: marshal_array_def)
qed

lemma marshal_vectors_render:
  assumes "vectors_finite v"
  shows "marshal_vectors L v = Inr (render_vectors L v)"
proof (cases v)
  case NilSlice
  then show ?thesis by (simp add: marshal_vectors_def)
next
  case (Slice vs)
  with assms have
    "\<And>s. s \<in> set vs \<Longrightarrow> marshal_slice (marshal_float32 L) s = Inr (render_vector L s)"
    by (auto simp: vectors_finite_def list_all_iff intro: marshal_vector_slice_render)
  then have "marshal_elems (marshal_slice (marshal_float32 L)) vs
               = Inr (map (render_vector L) vs)"
    by (rule marshal_elems_map)
  with Slice show ?thesis by (simp add: marshal_vectors_def marshal_array_def)
qed

lemma vectorPerTarget_loop_entries:
  "per_target_finite m \<Longrightarrow>
   vectorPerTarget_loop L m acc = Inr (acc @ per_target_entries L m)"
proof (induction m arbitrary: acc)
  case Nil
  show ?case by (simp add: per_target_entries_def)
next
  case (Cons kv m)
  obtain k v where kv: "kv = (k, v)" by (cases kv)
  from Cons.prems kv have "vectors_finite v" and rest: "per_target_finite m"
    by (simp_all add: per_target_finite_def vectors_finite_def)
  from marshal_vectors_render [OF this(1), of L] kv Cons.IH [OF rest] show ?case
    by (simp add: per_target_entries_def)
qed

lemma build_clauses_per_target:
  assumes "vectorsPerTarget b \<noteq> []" and "per_target_finite (vectorsPerTarget b)"
  shows "build_clauses L b
           = Inr (threshold_clauses L b @ [per_target_clause L (vectorsPerTarget b)]
                  @ target_clauses L b)"
  using assms vectorPerTarget_loop_entries [OF assms(2), of L "[]"]
  by (simp add: build_clauses_cases per_target_clause_def)

text \<open>
  Claim C2. In every builder state with a non-empty multi-target vector mapping, the built
  clause has the per-target vector lists and no single \<open>vector:\<close> field, whether or not a
  primary vector was set with \<open>WithVector\<close>: setting one does not change what \<open>build\<close>
  gives. The built query is the thresholds, then the clause \<open>vectorPerTarget: {...}\<close> with
  one entry for each entry of the mapping, the name of the target followed by the JSON
  text of all its vectors, then the targets; no clause in it is a \<open>vector:\<close> field.
  (\<open>build\<close> returns the clause when the vectors of the mapping are finite, and panics on
  the first one that \<open>json.Marshal\<close> refuses otherwise.)
\<close>

theorem per_target_takes_precedence:
  assumes "vectorsPerTarget b \<noteq> []"
  shows "build L (WithVector v b) = build L b
    \<and> (per_target_finite (vectorsPerTarget b) \<longrightarrow>
         build_clauses L b
           = Inr (threshold_clauses L b @ [per_target_clause L (vectorsPerTarget b)]
                  @ target_clauses L b)
         \<and> build L b
           = Inr (''nearVector:{''
                  @ strings_Join
                      (threshold_clauses L b @ [per_target_clause L (vectorsPerTarget b)]
                       @ target_clauses L b) '' ''
                  @ ''}'')
         \<and> per_target_clause L (vectorsPerTarget b)
           = ''vectorPerTarget: {''
             @ strings_Join
                 (map (\<lambda>(k, v). k @ '': '' @ render_vectors L v) (vectorsPerTarget b)) '',''
             @ ''}''
         \<and> has_clause ''vectorPerTarget: {''
              (threshold_clauses L b @ [per_target_clause L (vectorsPerTarget b)]
               @ target_clauses L b)
         \<and> \<not> has_clause ''vector: ''
              (threshold_clauses L b @ [per_target_clause L (vectorsPerTarget b)]
               @ target_clauses L b))
    \<and> (\<not> per_target_finite (vectorsPerTarget b) \<longrightarrow>
         (\<exists>msg. build L b = Inl (PanicString msg)))"
proof (intro conjI impI)
  show "build L (WithVector v b) = build L b"
    using assms by (rule build_WithVector_ignored)
next
  assume fin: "per_target_finite (vectorsPerTarget b)"
  show c: "build_clauses L b
           = Inr (threshold_clauses L b @ [per_target_clause L (vectorsPerTarget b)]
                  @ target_clauses L b)"
    using assms fin by (rule build_clauses_per_target)
  then show "build L b
           = Inr (''nearVector:{''
                  @ strings_Join
                      (threshold_clauses L b @ [per_target_clause L (vectorsPerTarget b)]
                       @ target_clauses L b) '' ''
                  @ ''}'')"
    by (simp add: build_def)
  show "per_target_clause L (vectorsPerTarget b)
           = ''vectorPerTarget: {''
             @ strings_Join
                 (map (\<lambda>(k, v). k @ '': '' @ render_vectors L v) (vectorsPerTarget b)) '',''
             @ ''}''"
    by (simp add: per_target_clause_def per_target_entries_def)
  from build_clauses_vector_clause [OF c] assms
  show "has_clause ''vectorPerTarget: {''
              (threshold_clauses L b @ [per_target_clause L (vectorsPerTarget b)]
               @ target_clauses L b)"
    and "\<not> has_clause ''vector: ''
              (threshold_clauses L b @ [per_target_clause L (vectorsPerTarget b)]
               @ target_clauses L b)"
    by simp_all
next
  assume "\<not> per_target_finite (vectorsPerTarget b)"
  from build_clauses_panics_per_target [OF assms this, of L] obtain msg
    where "build_clauses L b = Inl (PanicString msg)" by blast
  then show "\<exists>msg. build L b = Inl (PanicString msg)"
    by (simp add: build_def)
qed

theorem per_target_takes_precedence_witness:
  "vectorsPerTarget
     (WithVectorsPerTarget
        [(''a'', Slice [Slice [f32_one, f32_half], Slice [f32_half]]), (''b'', Slice [Slice [f32_one]])]
        fresh_builder) \<noteq> []
   \<and> per_target_finite
        (vectorsPerTarget
           (WithVectorsPerTarget
              [(''a'', Slice [Slice [f32_one, f32_half], Slice [f32_half]]),
               (''b'', Slice [Slice [f32_one]])]
              fresh_builder))
   \<and> build go_lib_sample
        (WithVector [f32_one]
           (WithVectorsPerTarget
              [(''a'', Slice [Slice [f32_one, f32_half], Slice [f32_half]]),
               (''b'', Slice [Slice [f32_one]])]
              fresh_builder))
      = Inr ''nearVector:{vectorPerTarget: {a: [[1,0.5],[0.5]],b: [[1]]}}''
   \<and> build go_lib_sample
        (WithVectorsPerTarget
           [(''a'', Slice [Slice [f32_one, f32_half], Slice [f32_half]]),
            (''b'', Slice [Slice [f32_one]])]
           fresh_builder)
      = Inr ''nearVector:{vectorPerTarget: {a: [[1,0.5],[0.5]],b: [[1]]}}''
   \<and> per_target_clause go_lib_sample
        [(''a'', Slice [Slice [f32_one, f32_half], Slice [f32_half]]), (''b'', Slice [Slice [f32_one]])]
      = ''vectorPerTarget: {a: [[1,0.5],[0.5]],b: [[1]]}''"
  using per_target_takes_precedence
    [of "WithVectorsPerTarget
           [(''a'', Slice [Slice [f32_one, f32_half], Slice [f32_half]]),
            (''b'', Slice [Slice [f32_one]])]
           fresh_builder"
        go_lib_sample "[f32_one]"]
  by (simp add: sample_simps per_target_clause_def per_target_entries_def)

text \<open>
  Claim C8. In every builder state with a certainty and a distance threshold set, the
  built clause has both, as two clauses of their own, first the certainty and then the
  distance, each printed from its own field. (\<open>build\<close> returns the clause when the vectors
  it serializes are finite, and panics otherwise.)
\<close>

theorem thresholds_both_passed:
  assumes "withCertainty b" and "withDistance b"
  shows "(serialized_finite b \<longrightarrow>
           (\<exists>rest. build_clauses L b
                     = Inr ((''certainty: '' @ sprint_float32 L (certainty b))
                            # (''distance: '' @ sprint_float32 L (distance b)) # rest)
              \<and> build L b
                     = Inr (''nearVector:{'' @ ''certainty: '' @ sprint_float32 L (certainty b)
                            @ '' '' @ ''distance: '' @ sprint_float32 L (distance b)
                            @ concat (map (\<lambda>c. '' '' @ c) rest) @ ''}'')))
    \<and> (\<not> serialized_finite b \<longrightarrow> (\<exists>p. build L b = Inl p))"
proof (intro conjI impI)
  assume "serialized_finite b"
  from build_clauses_returns [OF this] obtain clause where c: "build_clauses L b = Inr clause"
    by blast
  have t: "threshold_clauses L b
             = [''certainty: '' @ sprint_float32 L (certainty b),
                ''distance: '' @ sprint_float32 L (distance b)]"
    using assms by (simp add: threshold_clauses_def)
  from c obtain rest where r: "clause = threshold_clauses L b @ rest"
    by (auto simp: build_clauses_cases split: if_splits sum.splits)
  with c t have "build_clauses L b
                     = Inr ((''certainty: '' @ sprint_float32 L (certainty b))
                            # (''distance: '' @ sprint_float32 L (distance b)) # rest)"
    by simp
  moreover from this have "build L b
                     = Inr (''nearVector:{'' @ ''certainty: '' @ sprint_float32 L (certainty b)
                            @ '' '' @ ''distance: '' @ sprint_float32 L (distance b)
                            @ concat (map (\<lambda>c. '' '' @ c) rest) @ ''}'')"
    by (simp add: build_def strings_Join_Cons)
  ultimately show "\<exists>rest. build_clauses L b
                     = Inr ((''certainty: '' @ sprint_float32 L (certainty b))
                            # (''distance: '' @ sprint_float32 L (distance b)) # rest)
              \<and> build L b
                     = Inr (''nearVector:{'' @ ''certainty: '' @ sprint_float32 L (certainty b)
                            @ '' '' @ ''distance: '' @ sprint_float32 L (distance b)
                            @ concat (map (\<lambda>c. '' '' @ c) rest) @ ''}'')"
    by blast
next
  assume n: "\<not> serialized_finite b"
  show "\<exists>p. build L b = Inl p"
  proof (cases "vectorsPerTarget b = []")
    case True
    with n have "\<not> vector_finite (vector b)" by (simp add: serialized_finite_def)
    from build_clauses_panics_vector [OF True this, of L] show ?thesis
      by (auto simp: build_def)
  next
    case False
    with n have "\<not> per_target_finite (vectorsPerTarget b)" by (simp add: serialized_finite_def)
    from build_clauses_panics_per_target [OF False this, of L] show ?thesis
      by (auto simp: build_def)
  qed
qed

theorem thresholds_both_passed_witness:
  "withCertainty (WithDistance f32_half (WithCertainty f32_one (WithVector [f32_one, f32_half] fresh_builder)))
   \<and> withDistance (WithDistance f32_half (WithCertainty f32_one (WithVector [f32_one, f32_half] fresh_builder)))
   \<and> serialized_finite (WithDistance f32_half (WithCertainty f32_one (WithVector [f32_one, f32_half] fresh_builder)))
   \<and> build go_lib_sample
        (WithDistance f32_half (WithCertainty f32_one (WithVector [f32_one, f32_half] fresh_builder)))
      = Inr ''nearVector:{certainty: 1 distance: 0.5 vector: [1,0.5]}''"
  using thresholds_both_passed
    [of "WithDistance f32_half (WithCertainty f32_one (WithVector [f32_one, f32_half] fresh_builder))"
        go_lib_sample]
  by (simp add: sample_simps)

text \<open>
  Claim C4 says that \<open>build\<close> never produces a clause with neither a \<open>vector:\<close> nor a
  \<open>vectorPerTarget:\<close> entry. The fresh builder, the builder given an empty vector and the
  builder with only a certainty are built into such clauses.
\<close>

theorem empty_vector_fields_built:
  "build go_lib_sample fresh_builder = Inr ''nearVector:{}''
   \<and> build go_lib_sample (WithVector [] fresh_builder) = Inr ''nearVector:{}''
   \<and> build go_lib_sample (WithCertainty f32_one fresh_builder) = Inr ''nearVector:{certainty: 1}''"
  by (simp add: sample_simps)

text \<open>
  Claim C4, amended. A built clause has a \<open>vector:\<close> entry exactly when a non-empty primary
  vector is set and the mapping is empty, and a \<open>vectorPerTarget:\<close> entry exactly when the
  mapping is not empty. For a state with neither a primary vector nor a mapping, \<open>build\<close>
  returns a clause with neither entry.
\<close>

theorem vector_fields_as_set:
  "(build_clauses L b = Inr clause \<longrightarrow>
      has_clause ''vector: '' clause = (vector b \<noteq> [] \<and> vectorsPerTarget b = [])
      \<and> has_clause ''vectorPerTarget: {'' clause = (vectorsPerTarget b \<noteq> []))
   \<and> (vector b = [] \<and> vectorsPerTarget b = [] \<longrightarrow>
        (\<exists>clause. build_clauses L b = Inr clause
           \<and> \<not> has_clause ''vector: '' clause \<and> \<not> has_clause ''vectorPerTarget: {'' clause))"
proof (intro conjI impI)
  assume "build_clauses L b = Inr clause"
  from build_clauses_vector_clause [OF this]
  show "has_clause ''vector: '' clause = (vector b \<noteq> [] \<and> vectorsPerTarget b = [])"
    and "has_clause ''vectorPerTarget: {'' clause = (vectorsPerTarget b \<noteq> [])"
    by simp_all
next
  assume e: "vector b = [] \<and> vectorsPerTarget b = []"
  then have "serialized_finite b" by (simp add: serialized_finite_def vector_finite_def)
  from build_clauses_returns [OF this] obtain clause where c: "build_clauses L b = Inr clause"
    by blast
  from build_clauses_vector_clause [OF c] e c
  show "\<exists>clause. build_clauses L b = Inr clause
           \<and> \<not> has_clause ''vector: '' clause \<and> \<not> has_clause ''vectorPerTarget: {'' clause"
    by simp
qed

theorem vector_fields_as_set_witness:
  "build_clauses go_lib_sample (WithVector [f32_one] fresh_builder) = Inr [''vector: [1]'']
   \<and> has_clause ''vector: '' [''vector: [1]'']
   \<and> \<not> has_clause ''vectorPerTarget: {'' [''vector: [1]'']
   \<and> vector (WithCertainty f32_one fresh_builder) = []
   \<and> vectorsPerTarget (WithCertainty f32_one fresh_builder) = []
   \<and> build_clauses go_lib_sample (WithCertainty f32_one fresh_builder) = Inr [''certainty: 1'']
   \<and> \<not> has_clause ''vector: '' [''certainty: 1'']
   \<and> \<not> has_clause ''vectorPerTarget: {'' [''certainty: 1'']"
  using vector_fields_as_set [of go_lib_sample "WithVector [f32_one] fresh_builder" "[''vector: [1]'']"]
    vector_fields_as_set [of go_lib_sample "WithCertainty f32_one fresh_builder" "[''certainty: 1'']"]
  by (simp add: sample_simps)

text \<open>
  Claim C3 says that a vector with a NaN or an infinity is rejected with a typed
  \<open>InvalidVectorError\<close>. Here a NaN in the primary vector makes \<open>build\<close> panic with a plain
  error value made by \<open>fmt.Errorf\<close>, a negative infinity in a per-target vector makes it
  panic with a string, and an infinity in a primary vector that the mapping overrides is
  not looked at: the query is built.
\<close>

theorem nonfinite_vector_not_typed_error:
  "build go_lib_sample (WithVector [f32_NaN] fresh_builder)
     = Inl (PanicError
         ''failed to unmarshal nearVector search vector: json: unsupported value: NaN'')
   \<and> build go_lib_sample
        (WithVectorsPerTarget [(''t'', Slice [Slice [f32_one, f32_negInf]])] fresh_builder)
     = Inl (PanicString ''could not marshal vector: json: unsupported value: -Inf'')
   \<and> build go_lib_sample
        (WithVector [f32_posInf] (WithVectorsPerTarget [(''t'', Slice [Slice [f32_one]])] fresh_builder))
     = Inr ''nearVector:{vectorPerTarget: {t: [[1]]}}''"
  by (simp add: sample_simps)

lemma build_panics_per_target:
  assumes "vectorsPerTarget b \<noteq> []" and "\<not> per_target_finite (vectorsPerTarget b)"
  shows "\<exists>str. str \<in> {''NaN'', ''+Inf'', ''-Inf''}
           \<and> build L b
               = Inl (PanicString
                   (''could not marshal vector: json: unsupported value: '' @ str))"
proof -
  from build_clauses_panics_per_target [OF assms, of L] obtain err where
    e: "special_error err"
    and c: "build_clauses L b = Inl (PanicString (''could not marshal vector: '' @ json_Error err))"
    by blast
  from e obtain str where s: "str \<in> {''NaN'', ''+Inf'', ''-Inf''}"
    and "err = UnsupportedValueError str"
    unfolding special_error_def by blast
  with c have "build L b
       = Inl (PanicString (''could not marshal vector: json: unsupported value: '' @ str))"
    by (simp add: build_def)
  with s show ?thesis by blast
qed

lemma build_panics_vector:
  assumes "vectorsPerTarget b = []" and "\<not> vector_finite (vector b)"
  shows "\<exists>str. str \<in> {''NaN'', ''+Inf'', ''-Inf''}
           \<and> build L b
               = Inl (PanicError
                   (''failed to unmarshal nearVector search vector: json: unsupported value: ''
                      @ str))"
proof -
  from build_clauses_panics_vector [OF assms, of L] obtain err where
    e: "special_error err"
    and c: "build_clauses L b
       = Inl (PanicError (''failed to unmarshal nearVector search vector: '' @ json_Error err))"
    by blast
  from e obtain str where s: "str \<in> {''NaN'', ''+Inf'', ''-Inf''}"
    and "err = UnsupportedValueError str"
    unfolding special_error_def by blast
  with c have "build L b
       = Inl (PanicError
           (''failed to unmarshal nearVector search vector: json: unsupported value: '' @ str))"
    by (simp add: build_def)
  with s show ?thesis by blast
qed

text \<open>
  Claim C3, amended. \<open>build\<close> returns a query when the vectors it serializes (those of the
  mapping when it is not empty, the primary vector otherwise) are finite. When one of them
  holds a NaN or an infinity, \<open>build\<close> panics before any query string exists: with the
  string \<open>could not marshal vector: json: unsupported value: \<close> and the float's name for a
  vector of the mapping, with an error whose message is
  \<open>failed to unmarshal nearVector search vector: json: unsupported value: \<close> and the float's
  name for the primary vector.
\<close>

theorem nonfinite_vector_panics:
  "(serialized_finite b \<longrightarrow> (\<exists>query. build L b = Inr query))
   \<and> (vectorsPerTarget b \<noteq> [] \<and> \<not> per_target_finite (vectorsPerTarget b) \<longrightarrow>
        (\<exists>str. str \<in> {''NaN'', ''+Inf'', ''-Inf''}
           \<and> build L b
               = Inl (PanicString
                   (''could not marshal vector: json: unsupported value: '' @ str))))
   \<and> (vectorsPerTarget b = [] \<and> \<not> vector_finite (vector b) \<longrightarrow>
        (\<exists>str. str \<in> {''NaN'', ''+Inf'', ''-Inf''}
           \<and> build L b
               = Inl (PanicError
                   (''failed to unmarshal nearVector search vector: json: unsupported value: ''
                      @ str))))"
proof (intro conjI impI)
  assume "serialized_finite b"
  from build_clauses_returns [OF this, of L] obtain clause
    where "build_clauses L b = Inr clause" by blast
  then show "\<exists>query. build L b = Inr query"
    by (simp add: build_def)
next
  assume "vectorsPerTarget b \<noteq> [] \<and> \<not> per_target_finite (vectorsPerTarget b)"
  then show "\<exists>str. str \<in> {''NaN'', ''+Inf'', ''-Inf''}
           \<and> build L b
               = Inl (PanicString
                   (''could not marshal vector: json: unsupported value: '' @ str))"
    using build_panics_per_target [of b L] by blast
next
  assume "vectorsPerTarget b = [] \<and> \<not> vector_finite (vector b)"
  then show "\<exists>str. str \<in> {''NaN'', ''+Inf'', ''-Inf''}
           \<and> build L b
               = Inl (PanicError
                   (''failed to unmarshal nearVector search vector: json: unsupported value: ''
                      @ str))"
    using build_panics_vector [of b L] by blast
qed

theorem nonfinite_vector_panics_witness:
  "serialized_finite (WithVector [f32_one, f32_half] fresh_builder)
   \<and> build go_lib_sample (WithVector [f32_one, f32_half] fresh_builder)
       = Inr ''nearVector:{vector: [1,0.5]}''
   \<and> vectorsPerTarget (WithVectorsPerTarget [(''t'', Slice [Slice [f32_NaN]])] fresh_builder) \<noteq> []
   \<and> \<not> per_target_finite
         (vectorsPerTarget (WithVectorsPerTarget [(''t'', Slice [Slice [f32_NaN]])] fresh_builder))
   \<and> build go_lib_sample (WithVectorsPerTarget [(''t'', Slice [Slice [f32_NaN]])] fresh_builder)
       = Inl (PanicString ''could not marshal vector: json: unsupported value: NaN'')
   \<and> vectorsPerTarget (WithVector [f32_one, f32_posInf] fresh_builder) = []
   \<and> \<not> vector_finite (vector (WithVector [f32_one, f32_posInf] fresh_builder))
   \<and> build go_lib_sample (WithVector [f32_one, f32_posInf] fresh_builder)
       = Inl (PanicError
           ''failed to unmarshal nearVector search vector: json: unsupported value: +Inf'')"
proof -
  have a: "serialized_finite (WithVector [f32_one, f32_half] fresh_builder)"
    by (simp add: sample_simps)
  have b: "vectorsPerTarget (WithVectorsPerTarget [(''t'', Slice [Slice [f32_NaN]])] fresh_builder) \<noteq> []
     \<and> \<not> per_target_finite
         (vectorsPerTarget (WithVectorsPerTarget [(''t'', Slice [Slice [f32_NaN]])] fresh_builder))"
    by (simp add: sample_simps)
  have c: "vectorsPerTarget (WithVector [f32_one, f32_posInf] fresh_builder) = []
     \<and> \<not> vector_finite (vector (WithVector [f32_one, f32_posInf] fresh_builder))"
    by (simp add: sample_simps)
  have a': "build go_lib_sample (WithVector [f32_one, f32_half] fresh_builder)
       = Inr ''nearVector:{vector: [1,0.5]}''"
    by (simp add: sample_simps)
  have b': "build go_lib_sample (WithVectorsPerTarget [(''t'', Slice [Slice [f32_NaN]])] fresh_builder)
       = Inl (PanicString ''could not marshal vector: json: unsupported value: NaN'')"
    by (simp add: sample_simps)
  have c': "build go_lib_sample (WithVector [f32_one, f32_posInf] fresh_builder)
       = Inl (PanicError
           ''failed to unmarshal nearVector search vector: json: unsupported value: +Inf'')"
    by (simp add: sample_simps)
  from nonfinite_vector_panics
         [of "WithVector [f32_one, f32_half] fresh_builder" go_lib_sample, THEN conjunct1] a
  have "\<exists>query. build go_lib_sample (WithVector [f32_one, f32_half] fresh_builder) = Inr query"
    by (rule mp)
  moreover from
    nonfinite_vector_panics
      [of "WithVectorsPerTarget [(''t'', Slice [Slice [f32_NaN]])] fresh_builder" go_lib_sample,
       THEN conjunct2, THEN conjunct1] b
  have "\<exists>str. str \<in> {''NaN'', ''+Inf'', ''-Inf''}
     \<and> build go_lib_sample (WithVectorsPerTarget [(''t'', Slice [Slice [f32_NaN]])] fresh_builder)
          = Inl (PanicString (''could not marshal vector: json: unsupported value: '' @ str))"
    by (rule mp)
  moreover from
    nonfinite_vector_panics
      [of "WithVector [f32_one, f32_posInf] fresh_builder" go_lib_sample,
       THEN conjunct2, THEN conjunct2] c
  have "\<exists>str. str \<in> {''NaN'', ''+Inf'', ''-Inf''}
     \<and> build go_lib_sample (WithVector [f32_one, f32_posInf] fresh_builder)
          = Inl (PanicError
              (''failed to unmarshal nearVector search vector: json: unsupported value: '' @ str))"
    by (rule mp)
  ultimately show ?thesis using a b c a' b' c' by blast
qed

section \<open>Properties of processQuery with its stages\<close>

lemma apologies_distinct:
  "apology_embedding \<noteq> apology_search \<and> apology_embedding \<noteq> apology_generate
   \<and> apology_search \<noteq> apology_generate"
  by (simp add: apology_embedding_def apology_search_def apology_generate_def)

lemma query_builder_state:
  "vectorsPerTarget (WithVector v (new_builder :: 'mt NearVectorArgumentBuilder)) = []"
  "vector (WithVector v (new_builder :: 'mt NearVectorArgumentBuilder)) = v"
  by (simp_all add: WithVector_def new_builder_def)

lemma Get_Do_returns:
  assumes "vector_finite v"
  shows "\<exists>outcome. Get_Do (L :: 'mt golib) wc class_name field_names (WithVector v new_builder) limit
           = Inr outcome"
proof -
  have "serialized_finite (WithVector v (new_builder :: 'mt NearVectorArgumentBuilder))"
    using assms by (simp add: serialized_finite_def query_builder_state)
  from build_clauses_returns [OF this, of L] obtain clause
    where "build_clauses L (WithVector v new_builder) = Inr clause" by blast
  then show ?thesis by (simp add: Get_Do_def build_def)
qed

lemma Get_Do_panics:
  assumes "\<not> vector_finite v"
  shows "\<exists>str. str \<in> {''NaN'', ''+Inf'', ''-Inf''}
           \<and> Get_Do (L :: 'mt golib) wc class_name field_names (WithVector v new_builder) limit
               = Inl (PanicError
                   (''failed to unmarshal nearVector search vector: json: unsupported value: ''
                      @ str))"
proof -
  have "vectorsPerTarget (WithVector v (new_builder :: 'mt NearVectorArgumentBuilder)) = []"
    and "\<not> vector_finite (vector (WithVector v (new_builder :: 'mt NearVectorArgumentBuilder)))"
    using assms by (simp_all add: query_builder_state)
  from build_panics_vector [OF this, of L] obtain str
    where s: "str \<in> {''NaN'', ''+Inf'', ''-Inf''}"
      and "build L (WithVector v new_builder)
             = Inl (PanicError
                 (''failed to unmarshal nearVector search vector: json: unsupported value: ''
                    @ str))"
    by blast
  then have "Get_Do L wc class_name field_names (WithVector v new_builder) limit
               = Inl (PanicError
                   (''failed to unmarshal nearVector search vector: json: unsupported value: ''
                      @ str))"
    by (simp add: Get_Do_def)
  with s show ?thesis by blast
qed

lemma processQuery_returns:
  assumes "Embeddings oc ollamaModel q = Inr e"
    and "Get_Do L wc className [''text''] (WithVector (convertToFloat32 narrow e) new_builder) 3
           = Inr outcome"
  shows "\<exists>answer. processQuery L narrow oc wc q = Inr answer"
  using assms by (auto simp: processQuery_def split: sum.splits prod.splits option.splits)

text \<open>
  Claim C5 says that \<open>processQuery\<close> returns an apology on the failure of any stage rather
  than raising. Here the embedding of the query is the vector (1e39): its conversion to
  \<open>float32\<close> is an infinity, \<open>build\<close> panics inside the search of \<open>main.go\<close>, and the
  panic leaves \<open>processQuery\<close>.
\<close>

theorem processQuery_panic_leaves:
  "processQuery go_lib_sample narrow_sample ollama_huge_embedding
      (weaviate_answering (Inr weaviate_data_sample)) ''q''
     = Inl (PanicError
         ''failed to unmarshal nearVector search vector: json: unsupported value: +Inf'')"
  by (simp add: processQuery_def Get_Do_def ollama_huge_embedding_def narrow_sample_def
      convertToFloat32_def f64_1e39_def f64_one_def f64_half_def sample_simps)

text \<open>
  Claim C5, amended. When a stage reports its failure (the embedding call, the search or
  the generation returns an error), \<open>processQuery\<close> returns the apology of that stage to
  its caller, in both programs, and the three apologies are pairwise different. The
  Qdrant variant returns a string on every input. \<open>processQuery\<close> of \<open>main.go\<close> has no
  \<open>recover\<close>: after a successful embedding call it returns a string when the converted
  embedding has no NaN and no infinity, and otherwise the panic of \<open>build\<close> leaves it.
\<close>

theorem processQuery_apologises:
  "(Embeddings oc ollamaModel q = Inl err
      \<longrightarrow> processQuery L narrow oc wc q = Inr apology_embedding
          \<and> processQuery_qdrant narrow oc qc q = apology_embedding)
   \<and> (Embeddings oc ollamaModel q = Inr e
        \<and> Get_Do L wc className [''text''] (WithVector (convertToFloat32 narrow e) new_builder) 3
            = Inr (Inl err)
      \<longrightarrow> processQuery L narrow oc wc q = Inr apology_search)
   \<and> (Embeddings oc ollamaModel q = Inr e
        \<and> qc collectionName (convertToFloat32 narrow e) 3 True = Inl err
      \<longrightarrow> processQuery_qdrant narrow oc qc q = apology_search)
   \<and> (Embeddings oc ollamaModel q = Inr e
        \<and> Get_Do L wc className [''text''] (WithVector (convertToFloat32 narrow e) new_builder) 3
            = Inr (Inr Data)
        \<and> Generate oc ollamaModel (build_context Data @ question_label @ q @ answer_label)
            = (responses, Some err)
      \<longrightarrow> processQuery L narrow oc wc q = Inr apology_generate)
   \<and> (Embeddings oc ollamaModel q = Inr e
        \<and> qc collectionName (convertToFloat32 narrow e) 3 True = Inr Result
        \<and> Generate oc ollamaModel
             (context_loop_qdrant Result context_header @ question_label @ q @ answer_label)
            = (responses, Some err)
      \<longrightarrow> processQuery_qdrant narrow oc qc q = apology_generate)
   \<and> (Embeddings oc ollamaModel q = Inr e \<and> vector_finite (convertToFloat32 narrow e)
      \<longrightarrow> (\<exists>answer. processQuery L narrow oc wc q = Inr answer))
   \<and> (Embeddings oc ollamaModel q = Inr e \<and> \<not> vector_finite (convertToFloat32 narrow e)
      \<longrightarrow> (\<exists>str. str \<in> {''NaN'', ''+Inf'', ''-Inf''}
             \<and> processQuery L narrow oc wc q
                 = Inl (PanicError
                     (''failed to unmarshal nearVector search vector: json: unsupported value: ''
                        @ str))))
   \<and> apology_embedding \<noteq> apology_search \<and> apology_embedding \<noteq> apology_generate
   \<and> apology_search \<noteq> apology_generate"
proof -
  have ret: "Embeddings oc ollamaModel q = Inr e \<and> vector_finite (convertToFloat32 narrow e)
      \<longrightarrow> (\<exists>answer. processQuery L narrow oc wc q = Inr answer)"
  proof
    assume a: "Embeddings oc ollamaModel q = Inr e \<and> vector_finite (convertToFloat32 narrow e)"
    then have "vector_finite (convertToFloat32 narrow e)" by simp
    from Get_Do_returns [OF this, of L wc className "[''text'']" 3] obtain outcome
      where "Get_Do L wc className [''text''] (WithVector (convertToFloat32 narrow e) new_builder) 3
               = Inr outcome"
      by blast
    with a show "\<exists>answer. processQuery L narrow oc wc q = Inr answer"
      using processQuery_returns [of oc q e L wc narrow outcome] by simp
  qed
  have pan: "Embeddings oc ollamaModel q = Inr e \<and> \<not> vector_finite (convertToFloat32 narrow e)
      \<longrightarrow> (\<exists>str. str \<in> {''NaN'', ''+Inf'', ''-Inf''}
             \<and> processQuery L narrow oc wc q
                 = Inl (PanicError
                     (''failed to unmarshal nearVector search vector: json: unsupported value: ''
                        @ str)))"
  proof
    assume a: "Embeddings oc ollamaModel q = Inr e \<and> \<not> vector_finite (convertToFloat32 narrow e)"
    then have "\<not> vector_finite (convertToFloat32 narrow e)" by simp
    from Get_Do_panics [OF this, of L wc className "[''text'']" 3] obtain str
      where s: "str \<in> {''NaN'', ''+Inf'', ''-Inf''}"
        and g: "Get_Do L wc className [''text''] (WithVector (convertToFloat32 narrow e) new_builder) 3
               = Inl (PanicError
                   (''failed to unmarshal nearVector search vector: json: unsupported value: ''
                      @ str))"
      by blast
    from a g have "processQuery L narrow oc wc q
                 = Inl (PanicError
                     (''failed to unmarshal nearVector search vector: json: unsupported value: ''
                        @ str))"
      by (simp add: processQuery_def)
    with s show "\<exists>str. str \<in> {''NaN'', ''+Inf'', ''-Inf''}
             \<and> processQuery L narrow oc wc q
                 = Inl (PanicError
                     (''failed to unmarshal nearVector search vector: json: unsupported value: ''
                        @ str))"
      by blast
  qed
  show ?thesis
    using apologies_distinct ret pan
    by (simp add: processQuery_def processQuery_qdrant_def)
qed

lemmas client_simps =
  processQuery_def processQuery_qdrant_def Get_Do_def sample_ollama_def
  ollama_huge_embedding_def weaviate_answering_def qdrant_answering_def
  narrow_sample_def convertToFloat32_def f64_one_def f64_half_def f64_1e39_def

theorem processQuery_apologises_witness:
  "processQuery go_lib_sample narrow_sample (sample_ollama False True)
      (weaviate_answering (Inr weaviate_data_sample)) ''q''
     = Inr apology_embedding
   \<and> processQuery_qdrant narrow_sample (sample_ollama False True)
      (qdrant_answering (Inr qdrant_result_sample)) ''q''
     = apology_embedding
   \<and> processQuery go_lib_sample narrow_sample (sample_ollama True True)
      (weaviate_answering (Inl ''no route to host'')) ''q''
     = Inr apology_search
   \<and> processQuery_qdrant narrow_sample (sample_ollama True True)
      (qdrant_answering (Inl ''no route to host'')) ''q''
     = apology_search
   \<and> processQuery go_lib_sample narrow_sample (sample_ollama True False)
      (weaviate_answering (Inr weaviate_data_sample)) ''q''
     = Inr apology_generate
   \<and> processQuery_qdrant narrow_sample (sample_ollama True False)
      (qdrant_answering (Inr qdrant_result_sample)) ''q''
     = apology_generate
   \<and> vector_finite (convertToFloat32 narrow_sample [f64_one, f64_half])
   \<and> \<not> vector_finite (convertToFloat32 narrow_sample [f64_1e39])
   \<and> processQuery go_lib_sample narrow_sample ollama_huge_embedding
      (weaviate_answering (Inr weaviate_data_sample)) ''q''
     = Inl (PanicError
         ''failed to unmarshal nearVector search vector: json: unsupported value: +Inf'')"
proof -
  have fin: "vector_finite (convertToFloat32 narrow_sample [f64_one, f64_half])"
    and inf: "\<not> vector_finite (convertToFloat32 narrow_sample [f64_1e39])"
    by (simp_all add: client_simps sample_simps)
  have e0: "Embeddings (sample_ollama False True) ollamaModel ''q''
              = Inl ''embedding service down''"
    and e1: "Embeddings (sample_ollama True True) ollamaModel ''q'' = Inr [f64_one, f64_half]"
    and e2: "Embeddings (sample_ollama True False) ollamaModel ''q'' = Inr [f64_one, f64_half]"
    and e3: "Embeddings ollama_huge_embedding ollamaModel ''q'' = Inr [f64_1e39]"
    by (simp_all add: sample_ollama_def ollama_huge_embedding_def)
  have s1: "Get_Do go_lib_sample (weaviate_answering (Inl ''no route to host'')) className
              [''text''] (WithVector (convertToFloat32 narrow_sample [f64_one, f64_half]) new_builder) 3
            = Inr (Inl ''no route to host'')"
    and s2: "Get_Do go_lib_sample (weaviate_answering (Inr weaviate_data_sample)) className
              [''text''] (WithVector (convertToFloat32 narrow_sample [f64_one, f64_half]) new_builder) 3
            = Inr (Inr weaviate_data_sample)"
    by (simp_all add: client_simps sample_simps)
  have q1: "qdrant_answering (Inl ''no route to host'') collectionName
              (convertToFloat32 narrow_sample [f64_one, f64_half]) 3 True
            = Inl ''no route to host''"
    and q2: "qdrant_answering (Inr qdrant_result_sample) collectionName
              (convertToFloat32 narrow_sample [f64_one, f64_half]) 3 True
            = Inr qdrant_result_sample"
    by (simp_all add: qdrant_answering_def)
  have g: "Generate (sample_ollama True False) ollamaModel
             (build_context weaviate_data_sample @ question_label @ ''q'' @ answer_label)
           = ([], Some ''generation service down'')"
    and g': "Generate (sample_ollama True False) ollamaModel
             (context_loop_qdrant qdrant_result_sample context_header @ question_label @ ''q''
                @ answer_label)
           = ([], Some ''generation service down'')"
    by (simp_all add: sample_ollama_def)
  note a = processQuery_apologises
      [of "sample_ollama False True" "''q''" "''embedding service down''" go_lib_sample
          narrow_sample "weaviate_answering (Inr weaviate_data_sample)"
          "qdrant_answering (Inr qdrant_result_sample)"]
  note b = processQuery_apologises
      [of "sample_ollama True True" "''q''" "''no route to host''" go_lib_sample
          narrow_sample "weaviate_answering (Inl ''no route to host'')"
          "qdrant_answering (Inl ''no route to host'')" "[f64_one, f64_half]"]
  note c = processQuery_apologises
      [of "sample_ollama True False" "''q''" "''generation service down''" go_lib_sample
          narrow_sample "weaviate_answering (Inr weaviate_data_sample)"
          "qdrant_answering (Inr qdrant_result_sample)" "[f64_one, f64_half]"
          weaviate_data_sample "[]" qdrant_result_sample]
  from a e0 have 1: "processQuery go_lib_sample narrow_sample (sample_ollama False True)
      (weaviate_answering (Inr weaviate_data_sample)) ''q'' = Inr apology_embedding
    \<and> processQuery_qdrant narrow_sample (sample_ollama False True)
      (qdrant_answering (Inr qdrant_result_sample)) ''q'' = apology_embedding"
    by blast
  from b e1 s1 q1 have 2: "processQuery go_lib_sample narrow_sample (sample_ollama True True)
      (weaviate_answering (Inl ''no route to host'')) ''q'' = Inr apology_search
    \<and> processQuery_qdrant narrow_sample (sample_ollama True True)
      (qdrant_answering (Inl ''no route to host'')) ''q'' = apology_search"
    by blast
  from c e2 s2 q2 g g' have 3: "processQuery go_lib_sample narrow_sample (sample_ollama True False)
      (weaviate_answering (Inr weaviate_data_sample)) ''q'' = Inr apology_generate
    \<and> processQuery_qdrant narrow_sample (sample_ollama True False)
      (qdrant_answering (Inr qdrant_result_sample)) ''q'' = apology_generate"
    by blast
  have 4: "processQuery go_lib_sample narrow_sample ollama_huge_embedding
      (weaviate_answering (Inr weaviate_data_sample)) ''q''
     = Inl (PanicError
         ''failed to unmarshal nearVector search vector: json: unsupported value: +Inf'')"
    by (simp add: client_simps sample_simps)
  from 1 2 3 4 fin inf show ?thesis by blast
qed

text \<open>
  Claim C6 says that a result without a stored text makes the retrieval fail. Here the
  search returns three results, the second without a text, and the Ollama client repeats
  its prompt: both programs go on to the generation and return its answer, not the
  apology of the search; \<open>main.go\<close> has left the result out of the context, the Qdrant
  variant has an empty line for it.
\<close>

theorem missing_text_not_rejected:
  "processQuery go_lib_sample narrow_sample (sample_ollama True True)
      (weaviate_answering (Inr weaviate_data_sample)) ''q''
     = Inr (context_header @ ''first'' @ [CHR 0x0A] @ ''third'' @ [CHR 0x0A]
            @ question_label @ ''q'' @ answer_label)
   \<and> processQuery go_lib_sample narrow_sample (sample_ollama True True)
      (weaviate_answering (Inr weaviate_data_sample)) ''q'' \<noteq> Inr apology_search
   \<and> processQuery_qdrant narrow_sample (sample_ollama True True)
      (qdrant_answering (Inr qdrant_result_sample)) ''q''
     = context_header @ ''first'' @ [CHR 0x0A] @ [CHR 0x0A] @ ''third'' @ [CHR 0x0A]
       @ question_label @ ''q'' @ answer_label
   \<and> processQuery_qdrant narrow_sample (sample_ollama True True)
      (qdrant_answering (Inr qdrant_result_sample)) ''q'' \<noteq> apology_search"
proof -
  have w: "processQuery go_lib_sample narrow_sample (sample_ollama True True)
      (weaviate_answering (Inr weaviate_data_sample)) ''q''
     = Inr (context_header @ ''first'' @ [CHR 0x0A] @ ''third'' @ [CHR 0x0A]
            @ question_label @ ''q'' @ answer_label)"
    by (simp add: client_simps sample_simps weaviate_data_sample_def build_context_def
        className_def collect_answer_def)
  have d: "processQuery_qdrant narrow_sample (sample_ollama True True)
      (qdrant_answering (Inr qdrant_result_sample)) ''q''
     = context_header @ ''first'' @ [CHR 0x0A] @ [CHR 0x0A] @ ''third'' @ [CHR 0x0A]
       @ question_label @ ''q'' @ answer_label"
    by (simp add: client_simps qdrant_result_sample_def collect_answer_def)
  have n: "context_header @ rest \<noteq> apology_search" for rest
    by (simp add: context_header_def apology_search_def)
  from w n have "processQuery go_lib_sample narrow_sample (sample_ollama True True)
      (weaviate_answering (Inr weaviate_data_sample)) ''q'' \<noteq> Inr apology_search"
    by simp
  moreover from d n have "processQuery_qdrant narrow_sample (sample_ollama True True)
      (qdrant_answering (Inr qdrant_result_sample)) ''q'' \<noteq> apology_search"
    by simp
  ultimately show ?thesis using w d by blast
qed

lemma GetStringValue_no_string:
  "(\<forall>s. x \<noteq> Some (StringValue s)) \<Longrightarrow> GetStringValue x = []"
  by (cases x rule: GetStringValue.cases) simp_all

text \<open>
  Claim C6, amended. A result whose text is missing or is not a string never makes the
  retrieval fail. \<open>main.go\<close> skips it: the context is the one of the other results. The
  Qdrant variant adds an empty line for it. In both programs, when the embedding and the
  search succeed, whatever the search returned, and the generation ends without error,
  \<open>processQuery\<close> returns the collected answer.
\<close>

theorem missing_text_tolerated:
  "(text_of doc = None
      \<longrightarrow> context_loop (before @ doc # after) c = context_loop (before @ after) c)
   \<and> ((\<forall>s. map_of (Payload point) ''text'' \<noteq> Some (StringValue s))
      \<longrightarrow> context_loop_qdrant (before' @ point # after') c
          = context_loop_qdrant after' (context_loop_qdrant before' c @ [CHR 0x0A]))
   \<and> (Embeddings oc ollamaModel q = Inr e
        \<and> Get_Do L wc className [''text''] (WithVector (convertToFloat32 narrow e) new_builder) 3
            = Inr (Inr Data)
        \<and> Generate oc ollamaModel (build_context Data @ question_label @ q @ answer_label)
            = (responses, None)
      \<longrightarrow> processQuery L narrow oc wc q = Inr (collect_answer responses))
   \<and> (Embeddings oc ollamaModel q = Inr e
        \<and> qc collectionName (convertToFloat32 narrow e) 3 True = Inr Result
        \<and> Generate oc ollamaModel
             (context_loop_qdrant Result context_header @ question_label @ q @ answer_label)
            = (responses', None)
      \<longrightarrow> processQuery_qdrant narrow oc qc q = collect_answer responses')"
proof (intro conjI impI)
  assume "text_of doc = None"
  then show "context_loop (before @ doc # after) c = context_loop (before @ after) c"
    by (simp add: context_loop_texts List.map_filter_def)
next
  assume "\<forall>s. map_of (Payload point) ''text'' \<noteq> Some (StringValue s)"
  then have "GetStringValue (map_of (Payload point) ''text'') = []"
    by (rule GetStringValue_no_string)
  then show "context_loop_qdrant (before' @ point # after') c
          = context_loop_qdrant after' (context_loop_qdrant before' c @ [CHR 0x0A])"
    by (simp add: context_loop_qdrant_lines line_def)
next
  assume "Embeddings oc ollamaModel q = Inr e
        \<and> Get_Do L wc className [''text''] (WithVector (convertToFloat32 narrow e) new_builder) 3
            = Inr (Inr Data)
        \<and> Generate oc ollamaModel (build_context Data @ question_label @ q @ answer_label)
            = (responses, None)"
  then show "processQuery L narrow oc wc q = Inr (collect_answer responses)"
    by (simp add: processQuery_def)
next
  assume "Embeddings oc ollamaModel q = Inr e
        \<and> qc collectionName (convertToFloat32 narrow e) 3 True = Inr Result
        \<and> Generate oc ollamaModel
             (context_loop_qdrant Result context_header @ question_label @ q @ answer_label)
            = (responses', None)"
  then show "processQuery_qdrant narrow oc qc q = collect_answer responses'"
    by (simp add: processQuery_qdrant_def)
qed

theorem missing_text_tolerated_witness:
  "text_of (JObject [(''title'', JString ''untitled'')]) = None
   \<and> context_loop [JObject [(''text'', JString ''first'')],
                    JObject [(''title'', JString ''untitled'')],
                    JObject [(''text'', JString ''third'')]] context_header
     = context_loop [JObject [(''text'', JString ''first'')],
                     JObject [(''text'', JString ''third'')]] context_header
   \<and> context_loop_qdrant qdrant_result_sample context_header
     = context_loop_qdrant [\<lparr>Payload = [(''text'', StringValue ''third'')]\<rparr>]
         (context_loop_qdrant [\<lparr>Payload = [(''text'', StringValue ''first'')]\<rparr>] context_header
            @ [CHR 0x0A])
   \<and> processQuery go_lib_sample narrow_sample (sample_ollama True True)
        (weaviate_answering (Inr weaviate_data_sample)) ''q''
     = Inr (collect_answer
         [build_context weaviate_data_sample @ question_label @ ''q'' @ answer_label])
   \<and> processQuery_qdrant narrow_sample (sample_ollama True True)
        (qdrant_answering (Inr qdrant_result_sample)) ''q''
     = collect_answer
         [context_loop_qdrant qdrant_result_sample context_header @ question_label @ ''q''
            @ answer_label]"
proof -
  have s: "Get_Do go_lib_sample (weaviate_answering (Inr weaviate_data_sample)) className
              [''text''] (WithVector (convertToFloat32 narrow_sample [f64_one, f64_half]) new_builder) 3
            = Inr (Inr weaviate_data_sample)"
    by (simp add: client_simps sample_simps)
  from s missing_text_tolerated
    [of "JObject [(''title'', JString ''untitled'')]"
        "[JObject [(''text'', JString ''first'')]]"
        "[JObject [(''text'', JString ''third'')]]"
        context_header
        "\<lparr>Payload = [(''title'', StringValue ''untitled'')]\<rparr>"
        "[\<lparr>Payload = [(''text'', StringValue ''first'')]\<rparr>]"
        "[\<lparr>Payload = [(''text'', StringValue ''third'')]\<rparr>]"
        "sample_ollama True True" "''q''" "[f64_one, f64_half]" go_lib_sample
        "weaviate_answering (Inr weaviate_data_sample)" narrow_sample weaviate_data_sample
        "[build_context weaviate_data_sample @ question_label @ ''q'' @ answer_label]"
        "qdrant_answering (Inr qdrant_result_sample)" qdrant_result_sample
        "[context_loop_qdrant qdrant_result_sample context_header @ question_label @ ''q''
            @ answer_label]"]
  show ?thesis
    by (simp add: sample_ollama_def qdrant_answering_def qdrant_result_sample_def)
qed

end
